theory Spec2Isabelle
  imports Main "HOL-Library.Sublist" "HOL-Library.AList"
begin

section \<open>Strings and paths\<close>

text \<open>
  The installer composes every path with \<open>path.join\<close> and \<open>path.dirname\<close> of the
  POSIX path module it imports. Both are modelled on segments: \<open>join\<close> glues the
  non-empty arguments with a slash and normalises the result, dropping empty and
  \<open>.\<close> segments and resolving \<open>..\<close> against the segment before it.
\<close>

type_synonym path = string

definition slash :: char where
  "slash = CHR ''/''"

fun split_on :: "char \<Rightarrow> string \<Rightarrow> string list" where
  "split_on c [] = [[]]"
| "split_on c (x # xs) =
     (if x = c then [] # split_on c xs
      else (case split_on c xs of [] \<Rightarrow> [[x]] | s # ss \<Rightarrow> (x # s) # ss))"

fun intercalate :: "string \<Rightarrow> string list \<Rightarrow> string" where
  "intercalate sep [] = []"
| "intercalate sep [s] = s"
| "intercalate sep (s # t # ss) = s @ sep @ intercalate sep (t # ss)"

definition normalize_step :: "bool \<Rightarrow> string list \<Rightarrow> string \<Rightarrow> string list" where
  "normalize_step allowAboveRoot res seg =
     (if seg = [] \<or> seg = ''.'' then res
      else if seg = ''..'' then
        (if res \<noteq> [] \<and> last res \<noteq> ''..'' then butlast res
         else if allowAboveRoot then res @ [''..'']
         else res)
      else res @ [seg])"

definition normalizeStringPosix :: "string \<Rightarrow> bool \<Rightarrow> string" where
  "normalizeStringPosix p allowAboveRoot =
     intercalate [slash] (foldl (normalize_step allowAboveRoot) [] (split_on slash p))"

definition path_normalize :: "string \<Rightarrow> string" where
  "path_normalize p =
     (if p = [] then ''.''
      else
        let isAbsolute = (hd p = slash);
            trailingSeparator = (last p = slash);
            q = normalizeStringPosix p (\<not> isAbsolute);
            q1 = (if q = [] \<and> \<not> isAbsolute then ''.'' else q);
            q2 = (if q1 \<noteq> [] \<and> trailingSeparator then q1 @ [slash] else q1)
        in if isAbsolute then slash # q2 else q2)"

definition path_join :: "string list \<Rightarrow> string" where
  "path_join args =
     (case filter (\<lambda>a. a \<noteq> []) args of
        [] \<Rightarrow> ''.''
      | joined \<Rightarrow> path_normalize (intercalate [slash] joined))"

definition path_dirname :: "string \<Rightarrow> string" where
  "path_dirname p =
     (if p = [] then ''.''
      else
        let hasRoot = (hd p = slash);
            after_last = dropWhile (\<lambda>c. c = slash) (rev (tl p));
            upto_slash = dropWhile (\<lambda>c. c \<noteq> slash) after_last;
            end = length upto_slash
        in if upto_slash = [] then (if hasRoot then ''/'' else ''.'')
           else if hasRoot \<and> end = 1 then ''//''
           else take end p)"

definition startsWith :: "string \<Rightarrow> string \<Rightarrow> bool" where
  "startsWith s pre = (take (length pre) s = pre)"

text \<open>Decimal rendering of a number, as template strings and \<open>String(n)\<close> produce it.\<close>

definition digit_char :: "nat \<Rightarrow> char" where
  "digit_char d = char_of (of_char (CHR ''0'') + d)"

fun show_nat :: "nat \<Rightarrow> string" where
  "show_nat n = (if n < 10 then [digit_char n] else show_nat (n div 10) @ [digit_char (n mod 10)])"

declare show_nat.simps [simp del]

definition show_int :: "int \<Rightarrow> string" where
  "show_int i = (if i < 0 then CHR ''-'' # show_nat (nat (- i)) else show_nat (nat i))"

section \<open>Numbers\<close>

text \<open>
  The progress percentage is computed in double-precision arithmetic:
  \<open>Math.round(((currentFileCount + 1) / totalFiles) * 100)\<close>. A finite non-negative
  double is modelled by a pair \<open>(m, e)\<close> that denotes \<open>m * 2 ^ e\<close>; division and
  multiplication round the exact result to the nearest double, ties to the even
  mantissa (53 bits), and \<open>Math.round\<close> takes the integer nearest to the double, ties
  upwards. Counts are far below \<open>2 ^ 53\<close>, so they are doubles themselves, and the
  results stay in the normal range. A division by zero yields \<open>Infinity\<close>.
\<close>

datatype number = Finite nat | Infinity

type_synonym double = "int \<times> int"

definition round_half_even :: "int \<Rightarrow> int \<Rightarrow> int" where
  "round_half_even n d =
     (let q = n div d; r = n mod d
      in if 2 * r < d then q else if d < 2 * r then q + 1
         else if even q then q else q + 1)"

function bit_length :: "int \<Rightarrow> int" where
  "bit_length a = (if a \<le> 0 then 0 else 1 + bit_length (a div 2))"
  by pat_completeness auto
termination
  by (relation "measure nat") auto

declare bit_length.simps [simp del]

definition floor_log2 :: "int \<Rightarrow> int \<Rightarrow> int" where
  \<comment> \<open>the integer part of the binary logarithm of \<open>a / b\<close>, for positive \<open>a\<close> and \<open>b\<close>\<close>
  "floor_log2 a b =
     (let k = bit_length a - bit_length b
      in if b * 2 ^ nat k \<le> a * 2 ^ nat (- k) then k else k - 1)"

definition to_double :: "int \<Rightarrow> int \<Rightarrow> double" where
  \<comment> \<open>the double nearest to \<open>a / b\<close>\<close>
  "to_double a b =
     (if a = 0 then (0, 0)
      else let e = floor_log2 a b - 52
           in (round_half_even (a * 2 ^ nat (- e)) (b * 2 ^ nat e), e))"

definition double_div :: "int \<Rightarrow> int \<Rightarrow> double" where
  "double_div a b = to_double a b"

definition double_mul :: "double \<Rightarrow> int \<Rightarrow> double" where
  "double_mul x k = (case x of (m, e) \<Rightarrow> to_double (k * m * 2 ^ nat e) (2 ^ nat (- e)))"

definition Math_round :: "double \<Rightarrow> int" where
  "Math_round x = (case x of (m, e) \<Rightarrow> (2 * m * 2 ^ nat e + 2 ^ nat (- e)) div (2 * 2 ^ nat (- e)))"

definition percentage_of :: "nat \<Rightarrow> nat \<Rightarrow> number" where
  \<comment> \<open>\<open>Math.round((current / total) * 100)\<close> for \<open>current > 0\<close>\<close>
  "percentage_of current tot =
     (if tot = 0 then Infinity
      else Finite (nat (Math_round (double_mul (double_div (int current) (int tot)) 100))))"

section \<open>JSON values\<close>

text \<open>
  A JSON value as \<open>JSON.parse\<close> returns it and \<open>JSON.stringify\<close> prints it. An
  object is the list of its properties in the order JavaScript enumerates them; the
  keys of an object that \<open>JSON.parse\<close> built are distinct, and the properties
  stated about stores assume so. Assigning to a key that is not the decimal form of
  an array index replaces the value in place or appends a new entry, which is what
  \<open>AList.update\<close> does; the keys the installer assigns to, \<open>profiles\<close> and the
  profile key with its prefix \<open>communivents_\<close>, are of that kind. A number is an
  integer: the installer writes the numbers 1 and 3 only, and the numbers of a store
  it reads are carried over as parsed, so a number that \<open>JSON.parse\<close> would round to
  another double, or print differently, is outside the model.
\<close>

datatype json =
    JNull
  | JBool bool
  | JNum int
  | JStr string
  | JArr "json list"
  | JObj "(string \<times> json) list"

definition dq :: char where
  "dq = CHR 0x22"

definition backslash :: char where
  "backslash = CHR 0x5C"

definition hex_char :: "nat \<Rightarrow> char" where
  "hex_char d = (if d < 10 then digit_char d else char_of (of_char (CHR ''a'') + (d - 10)))"

definition escape_char :: "char \<Rightarrow> string" where
  "escape_char c =
     (let n = (of_char c :: nat)
      in if c = dq then [backslash, dq]
         else if c = backslash then [backslash, backslash]
         else if n = 8 then [backslash, CHR ''b'']
         else if n = 12 then [backslash, CHR ''f'']
         else if n = 10 then [backslash, CHR ''n'']
         else if n = 13 then [backslash, CHR ''r'']
         else if n = 9 then [backslash, CHR ''t'']
         else if n < 32 then [backslash, CHR ''u'', CHR ''0'', CHR ''0'', hex_char (n div 16), hex_char (n mod 16)]
         else [c])"

definition quote :: "string \<Rightarrow> string" where
  "quote s = dq # concat (map escape_char s) @ [dq]"

fun stringify :: "json \<Rightarrow> string" where
  "stringify JNull = ''null''"
| "stringify (JBool b) = (if b then ''true'' else ''false'')"
| "stringify (JNum i) = show_int i"
| "stringify (JStr s) = quote s"
| "stringify (JArr xs) = ''['' @ intercalate '','' (map stringify xs) @ '']''"
| "stringify (JObj kvs) =
     ''{'' @ intercalate '','' (map (\<lambda>kv. quote (fst kv) @ '':'' @ stringify (snd kv)) kvs) @ ''}''"

text \<open>Property read \<open>obj[key]\<close>: \<open>None\<close> stands for \<open>undefined\<close>.\<close>

fun get_property :: "json \<Rightarrow> string \<Rightarrow> json option" where
  "get_property (JObj kvs) k = map_of kvs k"
| "get_property _ k = None"

section \<open>The host: environment, filesystem and effects\<close>

text \<open>
  The installer runs against the Neutralino host: environment variables, the OS tag
  \<open>NL_OS\<close>, a shell (\<open>os.execCommand\<close>), the filesystem, an event channel and toast
  notifications. The filesystem is a map from paths to nodes. Everything the
  installer does to the outside is appended to a trace, so that the order of writes,
  commands, waits and events can be read off a run.

  A file's content is kept by what it denotes: bytes of a given length, a text, or the
  text of a JSON value (\<open>JSON.parse\<close> gives the value back, and fails on anything
  else). \<open>getStats\<close> rejects with code \<open>NE_FS_NOPATHE\<close> on a missing path and
  \<open>readFile\<close> rejects on anything but a file; directory creation, writes and removal
  are taken to succeed, and \<open>filesystem.remove\<close> removes a directory with everything
  below it. \<open>os.execCommand\<close> resolves with the exit code of the command
  whatever it is; what the command does to the filesystem is left to the host: it
  is a function of the number of commands run before, the command line and the
  filesystem it starts from.
\<close>

datatype error =
    NeutralinoError string
  | Error string
  | SyntaxError
  | TypeError

fun code :: "error \<Rightarrow> string option" where
  "code (NeutralinoError c) = Some c"
| "code _ = None"

fun message :: "error \<Rightarrow> string" where
  "message (NeutralinoError c) = c"
| "message (Error m) = m"
| "message SyntaxError = ''SyntaxError''"
| "message TypeError = ''TypeError''"

datatype content = Bytes nat | Text string | Json json

datatype node = Directory | RegularFile content

type_synonym filesystem = "path \<Rightarrow> node option"

fun content_size :: "content \<Rightarrow> nat" where
  "content_size (Bytes n) = n"
| "content_size (Text t) = length t"
| "content_size (Json j) = length (stringify j)"

record stats =
  isFile :: bool
  isDirectory :: bool
  size' :: nat

record exec_result =
  exitCode :: int
  stdOut :: string
  stdErr :: string

datatype event =
    instanceCreationProgress string nat nat number
  | instanceCreationComplete string path
  | instanceCreationError error

datatype effect =
    CreateDirectory path
  | WriteFile path content
  | Remove path
  | ExecCommand string
  | SetTimeout nat
  | Dispatch event
  | ToastError string
  | ToastErrorDescribed string string
  | ToastSuccess string

record env =
  NL_OS :: string
  getEnv :: "string \<Rightarrow> string"
  execCommand :: "nat \<Rightarrow> string \<Rightarrow> filesystem \<Rightarrow> exec_result \<times> filesystem"
  toISOString :: "nat \<Rightarrow> string"
  getBase64FromImageUrl :: "error + string"
  getArrayBufferFromImageUrl :: "error + nat"

record world =
  fs :: filesystem
  trace :: "effect list"
  execs :: nat
  dates :: nat

type_synonym 'a io = "world \<Rightarrow> (error + 'a) \<times> world"

definition ret :: "'a \<Rightarrow> 'a io" where
  "ret x = (\<lambda>w. (Inr x, w))"

definition throw :: "error \<Rightarrow> 'a io" where
  "throw e = (\<lambda>w. (Inl e, w))"

definition bnd :: "'a io \<Rightarrow> ('a \<Rightarrow> 'b io) \<Rightarrow> 'b io" where
  "bnd m f = (\<lambda>w. case m w of (Inl e, w') \<Rightarrow> (Inl e, w') | (Inr x, w') \<Rightarrow> f x w')"

definition try_catch :: "'a io \<Rightarrow> (error \<Rightarrow> 'a io) \<Rightarrow> 'a io" where
  "try_catch m h = (\<lambda>w. case m w of (Inl e, w') \<Rightarrow> h e w' | (Inr x, w') \<Rightarrow> (Inr x, w'))"

definition lift :: "error + 'a \<Rightarrow> 'a io" where
  "lift r = (\<lambda>w. (r, w))"

definition perform :: "effect \<Rightarrow> unit io" where
  "perform e = (\<lambda>w. (Inr (), w\<lparr>trace := trace w @ [e]\<rparr>))"

definition within_tree :: "path \<Rightarrow> path \<Rightarrow> bool" where
  "within_tree p q = (q = p \<or> prefix (p @ [slash]) q)"

definition getStats :: "path \<Rightarrow> stats io" where
  "getStats p = (\<lambda>w.
     case fs w p of
       None \<Rightarrow> (Inl (NeutralinoError ''NE_FS_NOPATHE''), w)
     | Some Directory \<Rightarrow> (Inr \<lparr>isFile = False, isDirectory = True, size' = 0\<rparr>, w)
     | Some (RegularFile c) \<Rightarrow> (Inr \<lparr>isFile = True, isDirectory = False, size' = content_size c\<rparr>, w))"

definition readFile :: "path \<Rightarrow> content io" where
  "readFile p = (\<lambda>w.
     case fs w p of
       Some (RegularFile c) \<Rightarrow> (Inr c, w)
     | _ \<Rightarrow> (Inl (NeutralinoError ''NE_FS_FILRDER''), w))"

definition createDirectory :: "path \<Rightarrow> unit io" where
  "createDirectory p = (\<lambda>w.
     (Inr (), w\<lparr>fs := (fs w)(p \<mapsto> Directory), trace := trace w @ [CreateDirectory p]\<rparr>))"

definition writeFile :: "path \<Rightarrow> content \<Rightarrow> unit io" where
  "writeFile p c = (\<lambda>w.
     (Inr (), w\<lparr>fs := (fs w)(p \<mapsto> RegularFile c), trace := trace w @ [WriteFile p c]\<rparr>))"

definition remove :: "path \<Rightarrow> unit io" where
  "remove p = (\<lambda>w.
     (Inr (), w\<lparr>fs := (\<lambda>q. if within_tree p q then None else fs w q), trace := trace w @ [Remove p]\<rparr>))"

definition os_execCommand :: "env \<Rightarrow> string \<Rightarrow> exec_result io" where
  "os_execCommand env cmd = (\<lambda>w.
     case execCommand env (execs w) cmd (fs w) of
       (result, fs') \<Rightarrow>
         (Inr result, w\<lparr>fs := fs', trace := trace w @ [ExecCommand cmd], execs := Suc (execs w)\<rparr>))"

definition new_Date_toISOString :: "env \<Rightarrow> string io" where
  "new_Date_toISOString env = (\<lambda>w. (Inr (toISOString env (dates w)), w\<lparr>dates := Suc (dates w)\<rparr>))"

definition JSON_parse :: "content \<Rightarrow> json io" where
  "JSON_parse c = (case c of Json j \<Rightarrow> ret j | _ \<Rightarrow> throw SyntaxError)"

text \<open>\<open>pathExists\<close> of the installer's utilities: a stat that maps the missing-path
  rejection to \<open>false\<close> and rethrows any other.\<close>

definition pathExists :: "path \<Rightarrow> bool io" where
  "pathExists p =
     try_catch (bnd (getStats p) (\<lambda>_. ret True))
       (\<lambda>error. if code error \<noteq> Some ''NE_FS_NOPATHE'' then throw error else ret False)"

definition API_URL :: string where
  "API_URL = ''http://141.94.37.234:7122''"

section \<open>The manifest\<close>

datatype InstallationType = Minecraft | Prism

datatype loader_type = Fabric | Vanilla

record File =
  download_url :: string
  filename :: string
  hash :: string
  file_size :: nat

record Loader =
  type' :: loader_type
  version :: string
  maven :: string
  metadata_url :: string
  installer_url :: string

record Java =
  minimum_version :: string
  recommended_memory :: string

record DownloadUrls =
  client_jar :: string
  assets_url :: string

record Files =
  mods :: "File list"
  resourcepacks :: "File list"
  shaderpacks :: "File list"
  saves :: "File list"
  config :: "File list"
  screenshots :: "File list"
  logs :: "File list"
  crash_reports :: "File list"
  versions :: "File list"
  assets :: "File list"
  libraries :: "File list"

record InstanceData =
  name :: string
  description :: string
  minecraft_version :: string
  loader :: Loader
  java :: Java
  download_urls :: DownloadUrls
  files :: Files

section \<open>The generic launcher's profile store\<close>

text \<open>
  \<open>updateLauncherProfiles\<close> of \<open>create.ts\<close>. The profile key is
  \<open>`communivents_${instanceName.toLowerCase().replace(/[^a-z0-9]/g, '_')}`\<close>. A
  character of a name is one UTF-16 code unit below 256; \<open>toLowerCase\<close> maps the
  letters A to Z and the upper-case letters of the Latin-1 block (192 to 222 but
  215) to the code unit 32 above, and \<open>replace\<close> turns every code unit outside
  \<open>a-z\<close> and \<open>0-9\<close> into an underscore.
\<close>

definition toLowerCase :: "string \<Rightarrow> string" where
  "toLowerCase s =
     map (\<lambda>c. let n = (of_char c :: nat)
              in if (65 \<le> n \<and> n \<le> 90) \<or> (192 \<le> n \<and> n \<le> 222 \<and> n \<noteq> 215) then char_of (n + 32) else c) s"

definition is_lower_or_digit :: "char \<Rightarrow> bool" where
  "is_lower_or_digit c =
     (let n = (of_char c :: nat) in (97 \<le> n \<and> n \<le> 122) \<or> (48 \<le> n \<and> n \<le> 57))"

definition replace_non_alnum :: "string \<Rightarrow> string" where
  "replace_non_alnum s = map (\<lambda>c. if is_lower_or_digit c then c else CHR ''_'') s"

definition profileId_of :: "string \<Rightarrow> string" where
  "profileId_of instanceName = ''communivents_'' @ replace_non_alnum (toLowerCase instanceName)"

definition empty_profiles :: json where
  "empty_profiles = JObj [(''profiles'', JObj []), (''settings'', JObj []), (''version'', JNum 3)]"

text \<open>
  The assignment \<open>profiles.profiles[profileId] = {...}\<close>. Reading
  \<open>profiles.profiles\<close> throws when \<open>profiles\<close> is \<open>null\<close>; the right-hand side is
  built next; the store then throws unless the target is an object or an array. A
  named property put on an array is not part of its JSON text, so the document is
  unchanged in that case.
\<close>

definition read_profiles_member :: "json \<Rightarrow> json option io" where
  "read_profiles_member profiles =
     (case profiles of JNull \<Rightarrow> throw TypeError | _ \<Rightarrow> ret (get_property profiles ''profiles''))"

definition assign_profile :: "json \<Rightarrow> json option \<Rightarrow> string \<Rightarrow> json \<Rightarrow> json io" where
  "assign_profile profiles target profileId profile =
     (case target of
        Some (JObj entries) \<Rightarrow>
          (case profiles of
             JObj members \<Rightarrow>
               ret (JObj (AList.update ''profiles'' (JObj (AList.update profileId profile entries)) members))
           | _ \<Rightarrow> ret profiles)
      | Some (JArr _) \<Rightarrow> ret profiles
      | _ \<Rightarrow> throw TypeError)"

definition truthy :: "string option \<Rightarrow> bool" where
  "truthy s = (case s of None \<Rightarrow> False | Some t \<Rightarrow> t \<noteq> [])"

text \<open>The object literal assigned to the profile key (lines 69 to 78).\<close>

definition launcher_profile :: "string \<Rightarrow> string \<Rightarrow> string \<Rightarrow> string \<Rightarrow> path \<Rightarrow> string option \<Rightarrow> json" where
  "launcher_profile created icon instanceName lastUsed instancePath javaArgs =
     JObj ([(''created'', JStr created),
            (''icon'', JStr icon),
            (''name'', JStr instanceName),
            (''lastUsed'', JStr lastUsed),
            (''lastVersionId'', JStr instanceName),
            (''gameDir'', JStr instancePath),
            (''type'', JStr ''custom'')]
           @ (if truthy javaArgs then [(''javaArgs'', JStr (the javaArgs))] else []))"

definition updateLauncherProfiles :: "env \<Rightarrow> path \<Rightarrow> string \<Rightarrow> path \<Rightarrow> string option \<Rightarrow> unit io" where
  "updateLauncherProfiles env minecraftPath instanceName instancePath javaArgs =
     (let profilesPath = path_join [minecraftPath, ''launcher_profiles.json''] in
      try_catch
        (bnd (pathExists profilesPath) (\<lambda>exists.
         bnd (if exists then bnd (readFile profilesPath) JSON_parse else ret empty_profiles) (\<lambda>profiles.
         let profileId = profileId_of instanceName in
         bnd (read_profiles_member profiles) (\<lambda>target.
         bnd (new_Date_toISOString env) (\<lambda>created.
         bnd (lift (getBase64FromImageUrl env)) (\<lambda>icon.
         bnd (new_Date_toISOString env) (\<lambda>lastUsed.
         bnd (assign_profile profiles target profileId
                (launcher_profile created icon instanceName lastUsed instancePath javaArgs)) (\<lambda>profiles'.
         writeFile profilesPath (Json profiles')))))))))
        (\<lambda>error.
           bnd (perform (ToastError ''Failed to update Minecraft launcher profiles'')) (\<lambda>_.
           throw error)))"

section \<open>The download engine\<close>

text \<open>One pass of the \<open>try\<close> block of \<open>downloadWithRetry\<close>.\<close>

definition download_attempt :: "env \<Rightarrow> string \<Rightarrow> path \<Rightarrow> bool io" where
  "download_attempt env cmd fullPath =
     bnd (os_execCommand env cmd) (\<lambda>result.
     if exitCode result \<noteq> 0 then throw (Error (stdErr result))
     else
       bnd (getStats fullPath) (\<lambda>stats.
       if \<not> isFile stats \<or> size' stats = 0 then throw (Error ''Downloaded file is empty or missing'')
       else ret True))"

function downloadWithRetry_from :: "env \<Rightarrow> string \<Rightarrow> path \<Rightarrow> string \<Rightarrow> nat \<Rightarrow> nat \<Rightarrow> bool io" where
  "downloadWithRetry_from env cmd fullPath fname maxRetries attempt w =
     (if attempt \<le> maxRetries then
        (case download_attempt env cmd fullPath w of
           (Inr ok, w1) \<Rightarrow> (Inr ok, w1)
         | (Inl error, w1) \<Rightarrow>
             if attempt = maxRetries then
               (case perform (ToastError (''Failed to download '' @ fname)) w1 of
                  (_, w2) \<Rightarrow> (Inr False, w2))
             else
               (case perform (SetTimeout (attempt * 1000)) w1 of
                  (_, w2) \<Rightarrow> downloadWithRetry_from env cmd fullPath fname maxRetries (Suc attempt) w2))
      else (Inr False, w))"
  by pat_completeness auto
termination
  by (relation "measure (\<lambda>(env, cmd, fullPath, fname, maxRetries, attempt, w). Suc maxRetries - attempt)") auto

declare downloadWithRetry_from.simps [simp del]

definition downloadWithRetry :: "env \<Rightarrow> string \<Rightarrow> path \<Rightarrow> string \<Rightarrow> nat \<Rightarrow> bool io" where
  "downloadWithRetry env cmd fullPath fname maxRetries =
     downloadWithRetry_from env cmd fullPath fname maxRetries 1"

definition is_index :: "File \<Rightarrow> bool" where
  "is_index file = startsWith (filename file) ''.index/''"

definition curl_file :: "path \<Rightarrow> string \<Rightarrow> string" where
  "curl_file fullPath url =
     ''curl -X GET -L --fail --silent --show-error -H '' @ [dq] @ ''Accept: application/octet-stream'' @ [dq]
       @ '' -o '' @ [dq] @ fullPath @ [dq] @ '' '' @ [dq] @ API_URL @ url @ [dq]"

fun downloadFiles_loop ::
  "env \<Rightarrow> File list \<Rightarrow> path \<Rightarrow> nat \<Rightarrow> nat \<Rightarrow> string list \<Rightarrow> string list io" where
  "downloadFiles_loop env [] targetPath currentFileCount totalFiles failedDownloads = ret failedDownloads"
| "downloadFiles_loop env (file # rest) targetPath currentFileCount totalFiles failedDownloads =
     (if is_index file then
        downloadFiles_loop env rest targetPath (currentFileCount + 1) totalFiles failedDownloads
      else
        (let fullPath = path_join [targetPath, filename file];
             dirPath = path_dirname fullPath in
         bnd (pathExists dirPath) (\<lambda>exists.
         bnd (if \<not> exists then createDirectory dirPath else ret ()) (\<lambda>_.
         bnd (perform (Dispatch (instanceCreationProgress (filename file) (currentFileCount + 1) totalFiles
                (percentage_of (currentFileCount + 1) totalFiles)))) (\<lambda>_.
         bnd (downloadWithRetry env (curl_file fullPath (download_url file)) fullPath (filename file) 3) (\<lambda>success.
         downloadFiles_loop env rest targetPath (currentFileCount + 1) totalFiles
           (if \<not> success then failedDownloads @ [filename file] else failedDownloads)))))))"

definition failure_summary :: "string list \<Rightarrow> string" where
  "failure_summary failedDownloads =
     (if length failedDownloads = 1 then ''Failed to download: '' @ hd failedDownloads
      else ''Failed to download '' @ show_nat (length failedDownloads) @ '' files. Check the console for details.'')"

definition downloadFiles :: "env \<Rightarrow> File list \<Rightarrow> path \<Rightarrow> nat \<Rightarrow> nat \<Rightarrow> unit io" where
  "downloadFiles env fls targetPath currentFileCount totalFiles =
     bnd (downloadFiles_loop env fls targetPath currentFileCount totalFiles []) (\<lambda>failedDownloads.
     if length failedDownloads > 0 then
       perform (ToastErrorDescribed (failure_summary failedDownloads)
                  ''Some files might be missing from the installation'')
     else ret ())"

definition downloadMinecraftFiles :: "env \<Rightarrow> DownloadUrls \<Rightarrow> path \<Rightarrow> unit io" where
  "downloadMinecraftFiles env urls minecraftPath =
     (let clientPath = path_join [minecraftPath, ''client.jar''];
          cmd = ''curl -X GET -L -o '' @ [dq] @ clientPath @ [dq] @ '' '' @ [dq] @ client_jar urls @ [dq] in
      bnd (os_execCommand env cmd) (\<lambda>_. ret ()))"

section \<open>Configuration written for the third-party launcher\<close>

fun typeof :: "json \<Rightarrow> string" where
  "typeof (JBool _) = ''boolean''"
| "typeof (JNum _) = ''number''"
| "typeof (JStr _) = ''string''"
| "typeof _ = ''object''"

fun to_string :: "json \<Rightarrow> string" where
  "to_string (JStr t) = t"
| "to_string (JNum i) = show_int i"
| "to_string (JBool b) = (if b then ''true'' else ''false'')"
| "to_string j = stringify j"

definition generatePrismConfig :: "(string \<times> json) list \<Rightarrow> string" where
  "generatePrismConfig cfg =
     intercalate [CHR 0x0A]
       (map (\<lambda>(key, val).
               if typeof val = ''object'' then key @ ''='' @ stringify val
               else key @ ''='' @ to_string val) cfg)"

definition instanceConfig_of :: "InstanceData \<Rightarrow> (string \<times> json) list" where
  "instanceConfig_of instanceData =
     [(''ExportAuthor'', JStr ''Communivents''),
      (''ExportName'', JStr (name instanceData)),
      (''InstanceType'', JStr ''OneSix''),
      (''JavaVersion'', JStr (minimum_version (java instanceData))),
      (''MaxMemAlloc'', JStr (recommended_memory (java instanceData))),
      (''name'', JStr (name instanceData)),
      (''notes'', JStr (description instanceData)),
      (''iconKey'', JStr ''communivents'')]"

definition mmcPackJson_of :: "InstanceData \<Rightarrow> json" where
  "mmcPackJson_of instanceData =
     JObj [(''formatVersion'', JNum 1),
           (''components'', JArr
              ([JObj [(''important'', JBool True),
                      (''uid'', JStr ''net.minecraft''),
                      (''version'', JStr (minecraft_version instanceData))]]
               @ (if type' (loader instanceData) = Fabric then
                    [JObj [(''uid'', JStr ''net.fabricmc.fabric-loader''),
                           (''version'', JStr (version (loader instanceData))),
                           (''requires'', JArr
                              [JObj [(''suggests'', JStr (minimum_version (java instanceData))),
                                     (''uid'', JStr ''org.prismlauncher.java'')]])]]
                  else [])))]"

section \<open>The installation orchestrator\<close>

text \<open>
  \<open>createMinecraftInstance\<close> of \<open>create.ts\<close>, the function the install dialog calls.
  Its three \<open>switch\<close> statements on \<open>NL_OS\<close> come first, each with the default case
  that throws.
\<close>

definition unsupported_os :: error where
  "unsupported_os = Error ''Unsupported operating system''"

definition create_basePath :: "env \<Rightarrow> error + path" where
  "create_basePath env =
     (let homeDir = getEnv env ''HOME'' in
      if NL_OS env = ''Windows'' then Inr (path_join [homeDir, ''AppData'', ''Roaming''])
      else if NL_OS env = ''Darwin'' then Inr (path_join [homeDir, ''Library'', ''Application Support''])
      else if NL_OS env = ''Linux'' then Inr homeDir
      else Inl unsupported_os)"

definition create_minecraftPath :: "env \<Rightarrow> path \<Rightarrow> error + path" where
  "create_minecraftPath env basePath =
     (if NL_OS env = ''Windows'' then Inr (path_join [basePath, ''.minecraft''])
      else if NL_OS env = ''Darwin'' then Inr (path_join [basePath, ''minecraft''])
      else if NL_OS env = ''Linux'' then Inr (path_join [basePath, ''.minecraft''])
      else Inl unsupported_os)"

definition create_prismPath :: "env \<Rightarrow> path \<Rightarrow> error + path" where
  "create_prismPath env basePath =
     (if NL_OS env = ''Windows'' then Inr (path_join [basePath, ''PrismLauncher''])
      else if NL_OS env = ''Darwin'' then Inr (path_join [basePath, ''PrismLauncher''])
      else if NL_OS env = ''Linux'' then Inr (path_join [basePath, ''.local'', ''share'', ''PrismLauncher''])
      else Inl unsupported_os)"

definition fileTypes :: "(string \<times> (Files \<Rightarrow> File list)) list" where
  "fileTypes =
     [(''mods'', mods), (''resourcepacks'', resourcepacks), (''shaderpacks'', shaderpacks),
      (''saves'', saves), (''config'', config), (''screenshots'', screenshots), (''logs'', logs),
      (''crash-reports'', crash_reports), (''versions'', versions), (''assets'', assets),
      (''libraries'', libraries)]"

definition totalFiles_of :: "Files \<Rightarrow> nat" where
  \<comment> \<open>\<open>Object.values(instanceData.files).flat().filter(...).length\<close>\<close>
  "totalFiles_of fls =
     length (filter (\<lambda>file. \<not> is_index file) (concat (map (\<lambda>(fileType, member). member fls) fileTypes)))"

fun download_fileTypes ::
  "env \<Rightarrow> (string \<times> (Files \<Rightarrow> File list)) list \<Rightarrow> Files \<Rightarrow> path \<Rightarrow> nat \<Rightarrow> nat \<Rightarrow> unit io" where
  "download_fileTypes env [] fls minecraftDir currentFileCount totalFiles = ret ()"
| "download_fileTypes env ((fileType, member) # rest) fls minecraftDir currentFileCount totalFiles =
     (if length (member fls) > 0 then
        (let targetPath = path_join [minecraftDir, fileType] in
         bnd (pathExists targetPath) (\<lambda>exists.
         bnd (if \<not> exists then createDirectory targetPath else ret ()) (\<lambda>_.
         bnd (downloadFiles env (member fls) targetPath currentFileCount totalFiles) (\<lambda>_.
         download_fileTypes env rest fls minecraftDir
           (currentFileCount + length (filter (\<lambda>f. \<not> is_index f) (member fls))) totalFiles))))
      else download_fileTypes env rest fls minecraftDir currentFileCount totalFiles)"

text \<open>
  The part of the \<open>try\<close> block after the check for an existing instance, in the
  order of the source: the directory structure (lines 287 to 293), the instance
  configuration (lines 295 to 344), the downloads (lines 346 to 374) and the
  completion (lines 376 to 381).
\<close>

definition prepare_directories :: "path \<Rightarrow> unit io" where
  "prepare_directories instancePath =
     bnd (pathExists instancePath) (\<lambda>exists1.
     bnd (if \<not> exists1 then createDirectory instancePath else ret ()) (\<lambda>_.
     bnd (pathExists (path_join [instancePath, ''.minecraft''])) (\<lambda>exists2.
     if \<not> exists2 then createDirectory (path_join [instancePath, ''.minecraft'']) else ret ())))"

definition write_configuration ::
  "env \<Rightarrow> InstanceData \<Rightarrow> InstallationType \<Rightarrow> path \<Rightarrow> path \<Rightarrow> path \<Rightarrow> unit io" where
  "write_configuration env instanceData installationType minecraftPath prismPath instancePath =
     (let instanceConfig = instanceConfig_of instanceData;
          mmcPackJson = mmcPackJson_of instanceData in
      if installationType = Prism then
        bnd (writeFile (path_join [instancePath, ''instance.cfg'']) (Text (generatePrismConfig instanceConfig))) (\<lambda>_.
        bnd (writeFile (path_join [instancePath, ''mmc-pack.json'']) (Json mmcPackJson)) (\<lambda>_.
        let iconPath = path_join [prismPath, ''icons'', ''communivents.png''] in
        bnd (pathExists iconPath) (\<lambda>exists3.
        if \<not> exists3 then
          bnd (lift (getArrayBufferFromImageUrl env)) (\<lambda>buffer.
          writeFile iconPath (Bytes buffer))
        else ret ())))
      else
        bnd (writeFile (path_join [instancePath, ''instance.json'']) (Json (JObj instanceConfig))) (\<lambda>_.
        updateLauncherProfiles env minecraftPath (name instanceData) instancePath
          (Some (''-Xmx'' @ recommended_memory (java instanceData)))))"

definition download_instance_files :: "env \<Rightarrow> InstanceData \<Rightarrow> path \<Rightarrow> unit io" where
  "download_instance_files env instanceData instancePath =
     (let totalFiles = totalFiles_of (files instanceData);
          minecraftDir = path_join [instancePath, ''.minecraft''] in
      bnd (download_fileTypes env fileTypes (files instanceData) minecraftDir 0 totalFiles) (\<lambda>_.
      if type' (loader instanceData) = Vanilla then
        downloadMinecraftFiles env (download_urls instanceData) minecraftDir
      else ret ()))"

definition complete_instance :: "InstanceData \<Rightarrow> path \<Rightarrow> bool io" where
  "complete_instance instanceData instancePath =
     bnd (perform (Dispatch (instanceCreationComplete (name instanceData) instancePath))) (\<lambda>_.
     bnd (perform (ToastSuccess (''Created '' @ [dq] @ name instanceData @ [dq] @ '' instance!''))) (\<lambda>_.
     ret True))"

definition install_instance ::
  "env \<Rightarrow> InstanceData \<Rightarrow> InstallationType \<Rightarrow> path \<Rightarrow> path \<Rightarrow> path \<Rightarrow> bool io" where
  "install_instance env instanceData installationType minecraftPath prismPath instancePath =
     bnd (prepare_directories instancePath) (\<lambda>_.
     bnd (write_configuration env instanceData installationType minecraftPath prismPath instancePath) (\<lambda>_.
     bnd (download_instance_files env instanceData instancePath) (\<lambda>_.
     complete_instance instanceData instancePath)))"

definition createMinecraftInstance :: "env \<Rightarrow> InstanceData \<Rightarrow> InstallationType \<Rightarrow> bool \<Rightarrow> bool io" where
  "createMinecraftInstance env instanceData installationType forceInstallation =
     try_catch
       (bnd (lift (create_basePath env)) (\<lambda>basePath.
        bnd (lift (create_minecraftPath env basePath)) (\<lambda>minecraftPath.
        bnd (if installationType = Minecraft then
               ret ([], path_join [minecraftPath, ''instances'', name instanceData])
             else
               bnd (lift (create_prismPath env basePath)) (\<lambda>prismPath.
               ret (prismPath, path_join [prismPath, ''instances'', name instanceData]))) (\<lambda>(prismPath, instancePath).
        bnd (pathExists instancePath) (\<lambda>dirExists.
        if dirExists then
          (if forceInstallation then
             bnd (remove instancePath) (\<lambda>_.
             install_instance env instanceData installationType minecraftPath prismPath instancePath)
           else ret False)
        else install_instance env instanceData installationType minecraftPath prismPath instancePath)))))
       (\<lambda>error.
          bnd (perform (Dispatch (instanceCreationError error))) (\<lambda>_.
          throw error))"

text \<open>The paths that \<open>createMinecraftInstance\<close> of \<open>create.ts\<close> computes before it
  looks at the filesystem: \<open>minecraftPath\<close>, \<open>prismPath\<close> and \<open>instancePath\<close>.\<close>

definition create_paths :: "env \<Rightarrow> InstallationType \<Rightarrow> string \<Rightarrow> error + (path \<times> path \<times> path)" where
  "create_paths env installationType instanceName =
     (case create_basePath env of
        Inl e \<Rightarrow> Inl e
      | Inr basePath \<Rightarrow>
          (case create_minecraftPath env basePath of
             Inl e \<Rightarrow> Inl e
           | Inr minecraftPath \<Rightarrow>
               if installationType = Minecraft then
                 Inr (minecraftPath, [], path_join [minecraftPath, ''instances'', instanceName])
               else (case create_prismPath env basePath of
                       Inl e \<Rightarrow> Inl e
                     | Inr prismPath \<Rightarrow>
                         Inr (minecraftPath, prismPath, path_join [prismPath, ''instances'', instanceName]))))"

definition create_instancePath :: "env \<Rightarrow> InstallationType \<Rightarrow> string \<Rightarrow> error + path" where
  "create_instancePath env installationType instanceName =
     (case create_paths env installationType instanceName of
        Inl e \<Rightarrow> Inl e
      | Inr (minecraftPath, prismPath, instancePath) \<Rightarrow> Inr instancePath)"

section \<open>The path resolvers of \<open>instance.ts\<close>\<close>

definition getBasePath :: "env \<Rightarrow> error + path" where
  "getBasePath env =
     (let homeDir = getEnv env ''HOME'' in
      if NL_OS env = ''Windows'' then Inr (getEnv env ''APPDATA'')
      else if NL_OS env = ''Darwin'' then Inr (path_join [homeDir, ''Library'', ''Application Support''])
      else if NL_OS env = ''Linux'' then Inr homeDir
      else Inl unsupported_os)"

definition getMinecraftPath :: "env \<Rightarrow> path \<Rightarrow> error + path" where
  "getMinecraftPath env basePath =
     (if NL_OS env = ''Windows'' \<or> NL_OS env = ''Linux'' then Inr (path_join [basePath, ''.minecraft''])
      else if NL_OS env = ''Darwin'' then Inr (path_join [basePath, ''minecraft''])
      else Inl unsupported_os)"

definition getPrismLauncherPath :: "env \<Rightarrow> path \<Rightarrow> error + path" where
  "getPrismLauncherPath env basePath =
     (if NL_OS env = ''Windows'' \<or> NL_OS env = ''Darwin'' then Inr (path_join [basePath, ''PrismLauncher''])
      else if NL_OS env = ''Linux'' then Inr (path_join [basePath, ''.local'', ''share'', ''PrismLauncher''])
      else Inl unsupported_os)"

text \<open>The first statement of \<open>createMinecraftInstance\<close> of \<open>instance.ts\<close>, which
  resolves the instance path from the three resolvers.\<close>

definition instance_instancePath :: "env \<Rightarrow> InstallationType \<Rightarrow> string \<Rightarrow> error + path" where
  "instance_instancePath env installationType instanceName =
     (case getBasePath env of
        Inl e \<Rightarrow> Inl e
      | Inr basePath \<Rightarrow>
          (case getMinecraftPath env basePath of
             Inl e \<Rightarrow> Inl e
           | Inr minecraftPath \<Rightarrow>
               if installationType = Minecraft then Inr (path_join [minecraftPath, ''instances'', instanceName])
               else (case getPrismLauncherPath env basePath of
                       Inl e \<Rightarrow> Inl e
                     | Inr prismPath \<Rightarrow> Inr (path_join [prismPath, ''instances'', instanceName]))))"

section \<open>Notions used to state the properties\<close>

text \<open>The world after one command has run, and after one more effect was logged.\<close>

definition after_exec :: "env \<Rightarrow> string \<Rightarrow> world \<Rightarrow> world" where
  "after_exec env cmd w =
     w\<lparr>fs := snd (execCommand env (execs w) cmd (fs w)),
       trace := trace w @ [ExecCommand cmd],
       execs := Suc (execs w)\<rparr>"

definition logged :: "effect \<Rightarrow> world \<Rightarrow> world" where
  "logged e w = w\<lparr>trace := trace w @ [e]\<rparr>"

definition wrote :: "path \<Rightarrow> content \<Rightarrow> world \<Rightarrow> world" where
  "wrote p c w = w\<lparr>fs := (fs w)(p \<mapsto> RegularFile c), trace := trace w @ [WriteFile p c]\<rparr>"

definition prepared :: "path \<Rightarrow> world \<Rightarrow> world" where
  "prepared instancePath w = snd (prepare_directories instancePath w)"

definition removed :: "path \<Rightarrow> world \<Rightarrow> world" where
  "removed p w = w\<lparr>fs := (\<lambda>q. if within_tree p q then None else fs w q), trace := trace w @ [Remove p]\<rparr>"

text \<open>
  The success criterion of one download attempt in the specification's words: the
  transfer started in world \<open>w\<close> exits with status zero, and afterwards the local
  file exists as a regular file of non-zero size.
\<close>

definition attempt_succeeds :: "env \<Rightarrow> string \<Rightarrow> path \<Rightarrow> world \<Rightarrow> bool" where
  "attempt_succeeds env cmd fullPath w =
     (case execCommand env (execs w) cmd (fs w) of
        (result, fs') \<Rightarrow>
          exitCode result = 0 \<and>
          (case fs' fullPath of Some (RegularFile c) \<Rightarrow> content_size c \<noteq> 0 | _ \<Rightarrow> False))"

text \<open>
  The shape of the effects of a batch download, used to read orders and counts off a
  run. What the host decides for one file is an outcome: whether the file's directory
  had to be created, how many transfers were run, and whether the last one succeeded.
  Given the outcomes, the effects are a function of the manifest alone.
\<close>

type_synonym outcome = "bool \<times> nat \<times> bool"

definition wf_outcome :: "outcome \<Rightarrow> bool" where
  "wf_outcome oc = (case oc of (made, k, ok) \<Rightarrow> 1 \<le> k \<and> k \<le> 3 \<and> (\<not> ok \<longrightarrow> k = 3))"

fun attempts_trace :: "string \<Rightarrow> nat \<Rightarrow> nat \<Rightarrow> effect list" where
  "attempts_trace cmd a 0 = []"
| "attempts_trace cmd a (Suc 0) = [ExecCommand cmd]"
| "attempts_trace cmd a (Suc (Suc k)) =
     ExecCommand cmd # SetTimeout (a * 1000) # attempts_trace cmd (Suc a) (Suc k)"

definition retry_trace :: "string \<Rightarrow> string \<Rightarrow> nat \<Rightarrow> bool \<Rightarrow> effect list" where
  "retry_trace cmd fname k ok =
     attempts_trace cmd 1 k @ (if ok then [] else [ToastError (''Failed to download '' @ fname)])"

definition progress_of :: "File \<Rightarrow> nat \<Rightarrow> nat \<Rightarrow> effect" where
  "progress_of file c tot =
     Dispatch (instanceCreationProgress (filename file) (c + 1) tot (percentage_of (c + 1) tot))"

definition command_of :: "path \<Rightarrow> File \<Rightarrow> string" where
  "command_of targetPath file = curl_file (path_join [targetPath, filename file]) (download_url file)"

definition file_trace :: "path \<Rightarrow> nat \<Rightarrow> File \<Rightarrow> nat \<Rightarrow> outcome \<Rightarrow> effect list" where
  "file_trace targetPath tot file c oc =
     (case oc of (made, k, ok) \<Rightarrow>
        (if made then [CreateDirectory (path_dirname (path_join [targetPath, filename file]))] else [])
        @ [progress_of file c tot]
        @ retry_trace (command_of targetPath file) (filename file) k ok)"

fun batch_trace :: "path \<Rightarrow> nat \<Rightarrow> File list \<Rightarrow> nat \<Rightarrow> outcome list \<Rightarrow> effect list" where
  "batch_trace targetPath tot [] c ocs = []"
| "batch_trace targetPath tot (file # rest) c ocs =
     (if is_index file then batch_trace targetPath tot rest (c + 1) ocs
      else (case ocs of
              [] \<Rightarrow> []
            | oc # ocs' \<Rightarrow> file_trace targetPath tot file c oc @ batch_trace targetPath tot rest (c + 1) ocs'))"

fun batch_failed :: "File list \<Rightarrow> outcome list \<Rightarrow> string list" where
  "batch_failed [] ocs = []"
| "batch_failed (file # rest) ocs =
     (if is_index file then batch_failed rest ocs
      else (case ocs of
              [] \<Rightarrow> []
            | (made, k, ok) # ocs' \<Rightarrow> (if ok then [] else [filename file]) @ batch_failed rest ocs'))"

definition summary_of :: "string list \<Rightarrow> effect list" where
  "summary_of failedDownloads =
     (if failedDownloads = [] then []
      else [ToastErrorDescribed (failure_summary failedDownloads)
              ''Some files might be missing from the installation''])"

definition non_index :: "File list \<Rightarrow> File list" where
  "non_index fls = filter (\<lambda>file. \<not> is_index file) fls"

text \<open>The same for a whole download phase: per category with entries, whether its
  directory had to be created, and the outcomes of its files.\<close>

type_synonym category_outcome = "bool \<times> outcome list"

fun types_trace ::
  "path \<Rightarrow> nat \<Rightarrow> (string \<times> (Files \<Rightarrow> File list)) list \<Rightarrow> Files \<Rightarrow> nat \<Rightarrow> category_outcome list \<Rightarrow> effect list" where
  "types_trace dir tot [] fls c cats = []"
| "types_trace dir tot ((fileType, member) # rest) fls c cats =
     (if length (member fls) > 0 then
        (case cats of
           [] \<Rightarrow> []
         | (made, ocs) # cats' \<Rightarrow>
             (if made then [CreateDirectory (path_join [dir, fileType])] else [])
             @ batch_trace (path_join [dir, fileType]) tot (member fls) c ocs
             @ summary_of (batch_failed (member fls) ocs)
             @ types_trace dir tot rest fls (c + length (non_index (member fls))) cats')
      else types_trace dir tot rest fls c cats)"

fun wf_categories :: "(string \<times> (Files \<Rightarrow> File list)) list \<Rightarrow> Files \<Rightarrow> category_outcome list \<Rightarrow> bool" where
  "wf_categories [] fls cats = (cats = [])"
| "wf_categories ((fileType, member) # rest) fls cats =
     (if length (member fls) > 0 then
        (case cats of
           [] \<Rightarrow> False
         | (made, ocs) # cats' \<Rightarrow>
             length ocs = length (non_index (member fls)) \<and> list_all wf_outcome ocs
             \<and> wf_categories rest fls cats')
      else wf_categories rest fls cats)"

fun is_fs_write :: "effect \<Rightarrow> bool" where
  "is_fs_write (CreateDirectory _) = True"
| "is_fs_write (WriteFile _ _) = True"
| "is_fs_write (Remove _) = True"
| "is_fs_write _ = False"

definition client_command :: "InstanceData \<Rightarrow> path \<Rightarrow> string" where
  "client_command instanceData instancePath =
     ''curl -X GET -L -o '' @ [dq] @ path_join [path_join [instancePath, ''.minecraft''], ''client.jar''] @ [dq]
       @ '' '' @ [dq] @ client_jar (download_urls instanceData) @ [dq]"

text \<open>
  The two pure steps of \<open>updateLauncherProfiles\<close>, for stating what it stores: the
  document it starts from, and the document after the profile was assigned.
\<close>

definition initial_store :: "filesystem \<Rightarrow> path \<Rightarrow> error + json" where
  "initial_store fsys profilesPath =
     (case fsys profilesPath of
        None \<Rightarrow> Inr empty_profiles
      | Some Directory \<Rightarrow> Inl (NeutralinoError ''NE_FS_FILRDER'')
      | Some (RegularFile (Json j)) \<Rightarrow> Inr j
      | Some (RegularFile _) \<Rightarrow> Inl SyntaxError)"

definition upsert_profile :: "json \<Rightarrow> string \<Rightarrow> json \<Rightarrow> error + json" where
  "upsert_profile store profileId profile =
     (case store of
        JObj members \<Rightarrow>
          (case map_of members ''profiles'' of
             Some (JObj entries) \<Rightarrow>
               Inr (JObj (AList.update ''profiles'' (JObj (AList.update profileId profile entries)) members))
           | Some (JArr _) \<Rightarrow> Inr store
           | _ \<Rightarrow> Inl TypeError)
      | _ \<Rightarrow> Inl TypeError)"

definition profiles_path :: "path \<Rightarrow> path" where
  "profiles_path minecraftPath = path_join [minecraftPath, ''launcher_profiles.json'']"

text \<open>The profile stored under a key of a profile store, when there is one.\<close>

definition stored_profile :: "json \<Rightarrow> string \<Rightarrow> json option" where
  "stored_profile store profileId =
     (case get_property store ''profiles'' of
        Some entries \<Rightarrow> get_property entries profileId
      | None \<Rightarrow> None)"

definition profiles_toast :: effect where
  "profiles_toast = ToastError ''Failed to update Minecraft launcher profiles''"

text \<open>
  Three views of a trace. The progress events alone, which depend on the manifest
  only; the progress events together with the transfer commands, given the number
  of attempts made for each file that is not an index marker, in processing order; and
  the batch summaries, given the files that failed in each category.
\<close>

fun is_progress :: "effect \<Rightarrow> bool" where
  "is_progress (Dispatch (instanceCreationProgress _ _ _ _)) = True"
| "is_progress _ = False"

fun is_transfer :: "effect \<Rightarrow> bool" where
  "is_transfer (ExecCommand _) = True"
| "is_transfer _ = False"

definition is_progress_or_transfer :: "effect \<Rightarrow> bool" where
  "is_progress_or_transfer e = (is_progress e \<or> is_transfer e)"

fun is_summary :: "effect \<Rightarrow> bool" where
  "is_summary (ToastErrorDescribed _ _) = True"
| "is_summary _ = False"

fun batch_progress :: "nat \<Rightarrow> File list \<Rightarrow> nat \<Rightarrow> effect list" where
  "batch_progress tot [] c = []"
| "batch_progress tot (file # rest) c =
     (if is_index file then batch_progress tot rest (c + 1)
      else progress_of file c tot # batch_progress tot rest (c + 1))"

fun types_progress :: "nat \<Rightarrow> (string \<times> (Files \<Rightarrow> File list)) list \<Rightarrow> Files \<Rightarrow> nat \<Rightarrow> effect list" where
  "types_progress tot [] fls c = []"
| "types_progress tot ((fileType, member) # rest) fls c =
     batch_progress tot (member fls) c
     @ types_progress tot rest fls (c + length (non_index (member fls)))"

definition install_progress :: "Files \<Rightarrow> effect list" where
  "install_progress fls = types_progress (totalFiles_of fls) fileTypes fls 0"

fun batch_order :: "path \<Rightarrow> nat \<Rightarrow> File list \<Rightarrow> nat \<Rightarrow> nat list \<Rightarrow> effect list" where
  "batch_order targetPath tot [] c ks = []"
| "batch_order targetPath tot (file # rest) c ks =
     (if is_index file then batch_order targetPath tot rest (c + 1) ks
      else (case ks of
              [] \<Rightarrow> []
            | k # ks' \<Rightarrow>
                progress_of file c tot # replicate k (ExecCommand (command_of targetPath file))
                @ batch_order targetPath tot rest (c + 1) ks'))"

fun types_order ::
  "path \<Rightarrow> nat \<Rightarrow> (string \<times> (Files \<Rightarrow> File list)) list \<Rightarrow> Files \<Rightarrow> nat \<Rightarrow> nat list \<Rightarrow> effect list" where
  "types_order dir tot [] fls c ks = []"
| "types_order dir tot ((fileType, member) # rest) fls c ks =
     batch_order (path_join [dir, fileType]) tot (member fls) c (take (length (non_index (member fls))) ks)
     @ types_order dir tot rest fls (c + length (non_index (member fls)))
         (drop (length (non_index (member fls))) ks)"

definition attempts_of :: "category_outcome list \<Rightarrow> nat list" where
  "attempts_of cats = concat (map (\<lambda>cat. map (\<lambda>oc. fst (snd oc)) (snd cat)) cats)"

fun failed_of :: "(string \<times> (Files \<Rightarrow> File list)) list \<Rightarrow> Files \<Rightarrow> category_outcome list \<Rightarrow> string list list" where
  "failed_of [] fls cats = []"
| "failed_of ((fileType, member) # rest) fls cats =
     (if length (member fls) > 0 then
        (case cats of
           [] \<Rightarrow> []
         | (made, ocs) # cats' \<Rightarrow> batch_failed (member fls) ocs # failed_of rest fls cats')
      else failed_of rest fls cats)"

text \<open>The files of each category with entries, when every download fails.\<close>

fun all_files_of :: "(string \<times> (Files \<Rightarrow> File list)) list \<Rightarrow> Files \<Rightarrow> string list list" where
  "all_files_of [] fls = []"
| "all_files_of ((fileType, member) # rest) fls =
     (if length (member fls) > 0 then [map filename (non_index (member fls))] else [])
     @ all_files_of rest fls"

text \<open>A host on which every transfer exits with a non-zero status, and the outcomes
  of a download phase in which every file used up its three attempts.\<close>

definition transfers_always_fail :: "env \<Rightarrow> bool" where
  "transfers_always_fail env = (\<forall>n cmd fsys. exitCode (fst (execCommand env n cmd fsys)) \<noteq> 0)"

definition all_failed :: "outcome list \<Rightarrow> bool" where
  "all_failed ocs = list_all (\<lambda>oc. snd oc = (3, False)) ocs"

definition all_categories_failed :: "category_outcome list \<Rightarrow> bool" where
  "all_categories_failed cats = list_all (\<lambda>cat. all_failed (snd cat)) cats"

text \<open>
  Two more views of a trace: the toast that \<open>downloadWithRetry\<close> shows for a file
  whose last attempt failed, and the summary that \<open>downloadFiles\<close> shows after a
  batch in which some file failed.
\<close>

fun is_failure :: "effect \<Rightarrow> bool" where
  "is_failure (ToastError _) = True"
| "is_failure _ = False"

definition failure_toast :: "string \<Rightarrow> effect" where
  "failure_toast fname = ToastError (''Failed to download '' @ fname)"

definition described :: "string \<Rightarrow> effect" where
  "described msg = ToastErrorDescribed msg ''Some files might be missing from the installation''"

definition categories_with_entries :: "(string \<times> (Files \<Rightarrow> File list)) list \<Rightarrow> Files \<Rightarrow> nat" where
  "categories_with_entries types fls = length (filter (\<lambda>ty. snd ty fls \<noteq> []) types)"

text \<open>
  What a filesystem holds for a profile: the \<open>gameDir\<close> of the profile stored under
  a key of the store at a path, and the keys of the store's profiles.
\<close>

definition stored_gameDir :: "filesystem \<Rightarrow> path \<Rightarrow> string \<Rightarrow> json option" where
  "stored_gameDir fsys profilesPath profileId =
     (case initial_store fsys profilesPath of
        Inr store \<Rightarrow>
          (case stored_profile store profileId of
             Some profile \<Rightarrow> get_property profile ''gameDir''
           | None \<Rightarrow> None)
      | Inl e \<Rightarrow> None)"



text \<open>A host whose commands leave what the filesystem holds at a path as it is.\<close>

definition transfers_keep :: "env \<Rightarrow> path \<Rightarrow> bool" where
  "transfers_keep env p = (\<forall>n cmd fsys. snd (execCommand env n cmd fsys) p = fsys p)"

section \<open>Test fixtures\<close>

definition world0 :: world where
  "world0 = \<lparr>fs = Map.empty, trace = [], execs = 0, dates = 0\<rparr>"

definition curl_fails :: exec_result where
  "curl_fails = \<lparr>exitCode = 22, stdOut = [], stdErr = ''curl: (22) The requested URL returned error: 404''\<rparr>"

definition curl_ok :: exec_result where
  "curl_ok = \<lparr>exitCode = 0, stdOut = [], stdErr = []\<rparr>"

text \<open>A Linux host whose transfers always fail and leave the filesystem alone.\<close>

definition host_offline :: env where
  "host_offline =
     \<lparr>NL_OS = ''Linux'',
      getEnv = (\<lambda>v. if v = ''HOME'' then ''/home/u'' else []),
      execCommand = (\<lambda>n cmd fsys. (curl_fails, fsys)),
      toISOString = (\<lambda>n. show_nat n),
      getBase64FromImageUrl = Inr ''data:image/png;base64,AAAA'',
      getArrayBufferFromImageUrl = Inr 4\<rparr>"

text \<open>A host whose first transfer fails and whose later transfers store ten bytes
  at \<open>/t/a.jar\<close>.\<close>

definition host_flaky :: env where
  "host_flaky =
     host_offline\<lparr>execCommand := (\<lambda>n cmd fsys.
        if n = 0 then (curl_fails, fsys)
        else (curl_ok, fsys(''/t/a.jar'' \<mapsto> RegularFile (Bytes 10))))\<rparr>"

definition file_entry :: "string \<Rightarrow> File" where
  "file_entry fname = \<lparr>download_url = ''/files/'' @ fname, filename = fname, hash = [], file_size = 1\<rparr>"

definition no_files :: Files where
  "no_files =
     \<lparr>mods = [], resourcepacks = [], shaderpacks = [], saves = [], config = [], screenshots = [],
      logs = [], crash_reports = [], versions = [], assets = [], libraries = []\<rparr>"

text \<open>A vanilla instance whose only category lists an index marker before one mod.\<close>

definition vanilla_pack :: InstanceData where
  "vanilla_pack =
     \<lparr>name = ''Pack'',
      description = ''A pack'',
      minecraft_version = ''1.20.1'',
      loader = \<lparr>type' = Vanilla, version = [], maven = [], metadata_url = [], installer_url = []\<rparr>,
      java = \<lparr>minimum_version = ''17'', recommended_memory = ''4G''\<rparr>,
      download_urls = \<lparr>client_jar = ''https://example.org/client.jar'', assets_url = []\<rparr>,
      files = no_files\<lparr>mods := [file_entry ''.index/modrinth.index.json'', file_entry ''a.jar'']\<rparr>\<rparr>"

definition installed_world :: world where
  "installed_world = world0\<lparr>fs := [''/home/u/.minecraft/instances/Pack'' \<mapsto> Directory]\<rparr>"


text \<open>Two index markers before the only mod, and one resource pack.\<close>

definition two_marker_pack :: InstanceData where
  "two_marker_pack =
     vanilla_pack\<lparr>files := no_files
       \<lparr>mods := [file_entry ''.index/a.json'', file_entry ''.index/b.json'', file_entry ''a.jar''],
        resourcepacks := [file_entry ''b.zip'']\<rparr>\<rparr>"

text \<open>One mod and one configuration file.\<close>

definition two_category_pack :: InstanceData where
  "two_category_pack =
     vanilla_pack\<lparr>files := no_files\<lparr>mods := [file_entry ''a.jar''], config := [file_entry ''b.cfg'']\<rparr>\<rparr>"

definition pack_path :: path where
  "pack_path = ''/home/u/.minecraft/instances/Pack''"

definition pack_mods :: path where
  "pack_mods = ''/home/u/.minecraft/instances/Pack/.minecraft/mods''"

text \<open>A Windows host whose roaming profile is redirected away from the home
  directory, a Windows host without a \<open>HOME\<close> variable, a macOS host, and a host
  that is none of the three.\<close>

definition host_windows :: env where
  "host_windows =
     host_offline\<lparr>NL_OS := ''Windows'',
       getEnv := (\<lambda>v. if v = ''HOME'' then ''C:/Users/u''
                      else if v = ''APPDATA'' then ''D:/Roaming/u'' else [])\<rparr>"

definition host_windows_no_home :: env where
  "host_windows_no_home =
     host_offline\<lparr>NL_OS := ''Windows'',
       getEnv := (\<lambda>v. if v = ''APPDATA'' then ''C:/Users/u/AppData/Roaming'' else [])\<rparr>"

definition host_macos :: env where
  "host_macos =
     host_offline\<lparr>NL_OS := ''Darwin'', getEnv := (\<lambda>v. if v = ''HOME'' then ''/Users/u'' else [])\<rparr>"

definition host_freebsd :: env where
  "host_freebsd = host_offline\<lparr>NL_OS := ''FreeBSD''\<rparr>"






text \<open>A world in which nothing but one directory exists.\<close>

definition existing :: "path \<Rightarrow> world" where
  "existing p = world0\<lparr>fs := [p \<mapsto> Directory]\<rparr>"

section \<open>Basic facts about the host operations\<close>

lemma pathExists_eq: "pathExists p w = (Inr (fs w p \<noteq> None), w)"
  by (simp add: pathExists_def try_catch_def bnd_def getStats_def ret_def throw_def
      split: option.splits node.splits)

lemma bnd_apply: "bnd m f w = (case m w of (Inl e, w') \<Rightarrow> (Inl e, w') | (Inr x, w') \<Rightarrow> f x w')"
  by (simp add: bnd_def)

lemma bnd_ret: "bnd (ret x) f = f x"
  by (simp add: bnd_def ret_def)

lemma ret_apply: "ret x w = (Inr x, w)"
  by (simp add: ret_def)

lemma throw_apply: "throw e w = (Inl e, w)"
  by (simp add: throw_def)

lemma bnd_Pair_Inr: "bnd (Pair (Inr x)) f = f x"
  by (simp add: bnd_def)

lemma bnd_Pair_Inl: "bnd (Pair (Inl e)) f = Pair (Inl e)"
  by (simp add: bnd_def)

lemma bnd_throw: "bnd (throw e) f = throw e"
  by (simp add: bnd_def throw_def)

lemma bnd_lift_Inr: "bnd (lift (Inr x)) f = f x"
  by (simp add: bnd_def lift_def)

lemma bnd_lift_Inl: "bnd (lift (Inl e)) f = throw e"
  by (simp add: bnd_def lift_def throw_def)

lemma bnd_pathExists: "bnd (pathExists p) f w = f (fs w p \<noteq> None) w"
  by (simp add: bnd_def pathExists_eq)

lemma try_catch_apply:
  "try_catch m h w = (case m w of (Inl e, w') \<Rightarrow> h e w' | (Inr x, w') \<Rightarrow> (Inr x, w'))"
  by (simp add: try_catch_def)

lemma os_execCommand_eq:
  "os_execCommand env cmd w = (Inr (fst (execCommand env (execs w) cmd (fs w))), after_exec env cmd w)"
  by (simp add: os_execCommand_def after_exec_def split: prod.splits)

lemma download_attempt_world: "snd (download_attempt env cmd fullPath w) = after_exec env cmd w"
  by (simp add: download_attempt_def bnd_def os_execCommand_eq throw_def ret_def getStats_def
      split: option.splits node.splits)

lemma download_attempt_result:
  "fst (download_attempt env cmd fullPath w) = Inr b \<longleftrightarrow> b \<and> attempt_succeeds env cmd fullPath w"
  by (auto simp add: download_attempt_def bnd_def os_execCommand_eq throw_def ret_def getStats_def
      attempt_succeeds_def after_exec_def
      split: option.splits node.splits prod.splits)

lemma perform_eq: "perform e w = (Inr (), logged e w)"
  by (simp add: perform_def logged_def)

lemma retry_step:
  "downloadWithRetry_from env cmd p f m a w =
     (if a \<le> m then
        (if attempt_succeeds env cmd p w then (Inr True, after_exec env cmd w)
         else if a = m then (Inr False, logged (ToastError (''Failed to download '' @ f)) (after_exec env cmd w))
         else downloadWithRetry_from env cmd p f m (Suc a) (logged (SetTimeout (a * 1000)) (after_exec env cmd w)))
      else (Inr False, w))"
proof (cases "download_attempt env cmd p w")
  case (Pair r w1)
  have w1: "w1 = after_exec env cmd w"
    using download_attempt_world [of env cmd p w] Pair by simp
  have r: "\<And>b. r = Inr b \<longleftrightarrow> b \<and> attempt_succeeds env cmd p w"
    using download_attempt_result [of env cmd p w] Pair by simp
  show ?thesis
  proof (cases r)
    case (Inl e)
    with r have "\<not> attempt_succeeds env cmd p w" by auto
    with Inl Pair w1 show ?thesis
      by (subst downloadWithRetry_from.simps) (simp add: perform_eq)
  next
    case (Inr b)
    with r have "b" "attempt_succeeds env cmd p w" by auto
    with Inr Pair w1 show ?thesis
      by (subst downloadWithRetry_from.simps) simp
  qed
qed

lemma retry3:
  "downloadWithRetry env cmd p f 3 w =
    (let w1 = after_exec env cmd w;
         w2 = after_exec env cmd (logged (SetTimeout 1000) w1);
         w3 = after_exec env cmd (logged (SetTimeout 2000) w2)
     in if attempt_succeeds env cmd p w then (Inr True, w1)
        else if attempt_succeeds env cmd p (logged (SetTimeout 1000) w1) then (Inr True, w2)
        else if attempt_succeeds env cmd p (logged (SetTimeout 2000) w2) then (Inr True, w3)
        else (Inr False, logged (ToastError (''Failed to download '' @ f)) w3))"
proof -
  have s3: "\<And>v. downloadWithRetry_from env cmd p f 3 3 v =
      (if attempt_succeeds env cmd p v then (Inr True, after_exec env cmd v)
       else (Inr False, logged (ToastError (''Failed to download '' @ f)) (after_exec env cmd v)))"
    by (subst retry_step) simp
  have s2: "\<And>v. downloadWithRetry_from env cmd p f 3 2 v =
      (if attempt_succeeds env cmd p v then (Inr True, after_exec env cmd v)
       else downloadWithRetry_from env cmd p f 3 3 (logged (SetTimeout 2000) (after_exec env cmd v)))"
    by (subst retry_step) simp
  have s1: "\<And>v. downloadWithRetry_from env cmd p f 3 (Suc 0) v =
      (if attempt_succeeds env cmd p v then (Inr True, after_exec env cmd v)
       else downloadWithRetry_from env cmd p f 3 2 (logged (SetTimeout 1000) (after_exec env cmd v)))"
    by (subst retry_step) (simp add: numeral_2_eq_2)
  show ?thesis
    unfolding downloadWithRetry_def by (simp add: s1 s2 s3 Let_def)
qed

lemma trace_after_exec: "trace (after_exec env cmd w) = trace w @ [ExecCommand cmd]"
  by (simp add: after_exec_def)

lemma trace_logged: "trace (logged e w) = trace w @ [e]"
  by (simp add: logged_def)

lemma execs_after_exec: "execs (after_exec env cmd w) = Suc (execs w)"
  by (simp add: after_exec_def)

lemma execs_logged: "execs (logged e w) = execs w"
  by (simp add: logged_def)



lemma retry3_cases:
  obtains (first) "downloadWithRetry env cmd p f 3 w = (Inr True, after_exec env cmd w)"
      "attempt_succeeds env cmd p w"
  | (second) "downloadWithRetry env cmd p f 3 w =
        (Inr True, after_exec env cmd (logged (SetTimeout 1000) (after_exec env cmd w)))"
      "\<not> attempt_succeeds env cmd p w"
      "attempt_succeeds env cmd p (logged (SetTimeout 1000) (after_exec env cmd w))"
  | (third) "downloadWithRetry env cmd p f 3 w =
        (Inr True, after_exec env cmd (logged (SetTimeout 2000)
           (after_exec env cmd (logged (SetTimeout 1000) (after_exec env cmd w)))))"
      "\<not> attempt_succeeds env cmd p w"
      "\<not> attempt_succeeds env cmd p (logged (SetTimeout 1000) (after_exec env cmd w))"
      "attempt_succeeds env cmd p (logged (SetTimeout 2000)
           (after_exec env cmd (logged (SetTimeout 1000) (after_exec env cmd w))))"
  | (failed) "downloadWithRetry env cmd p f 3 w =
        (Inr False, logged (ToastError (''Failed to download '' @ f)) (after_exec env cmd (logged (SetTimeout 2000)
           (after_exec env cmd (logged (SetTimeout 1000) (after_exec env cmd w))))))"
      "\<not> attempt_succeeds env cmd p w"
      "\<not> attempt_succeeds env cmd p (logged (SetTimeout 1000) (after_exec env cmd w))"
      "\<not> attempt_succeeds env cmd p (logged (SetTimeout 2000)
           (after_exec env cmd (logged (SetTimeout 1000) (after_exec env cmd w))))"
proof (cases "attempt_succeeds env cmd p w")
  case True
  then show ?thesis using first by (simp add: retry3 Let_def)
next
  case a: False
  show ?thesis
  proof (cases "attempt_succeeds env cmd p (logged (SetTimeout 1000) (after_exec env cmd w))")
    case True
    then show ?thesis using a second by (simp add: retry3 Let_def)
  next
    case b: False
    show ?thesis
    proof (cases "attempt_succeeds env cmd p (logged (SetTimeout 2000)
           (after_exec env cmd (logged (SetTimeout 1000) (after_exec env cmd w))))")
      case True
      then show ?thesis using a b third by (simp add: retry3 Let_def)
    next
      case False
      then show ?thesis using a b failed by (simp add: retry3 Let_def)
    qed
  qed
qed

section \<open>The retry law\<close>

text \<open>
  C2. With the default of three retries, \<open>downloadWithRetry\<close> is determined by the
  outcomes of at most three attempts. One attempt runs the transfer once, and it
  succeeds exactly when the transfer exits with status zero and the local file is then
  a regular file of non-zero size. If the first attempt succeeds the result is
  \<open>true\<close> after that one transfer. Otherwise a wait of 1000 is followed by the second
  attempt, and if that fails a wait of 2000 by the third; the first success ends the
  call with \<open>true\<close> and no failure toast. If all three attempts fail, the result is
  \<open>false\<close>, after the failure toast and with no further wait. The equation fixes the
  result, the trace and the filesystem of every call.
\<close>

theorem downloadWithRetry_retry_law:
  "(fst (download_attempt env cmd fullPath v) = Inr True \<longleftrightarrow> attempt_succeeds env cmd fullPath v)
   \<and> snd (download_attempt env cmd fullPath v) = after_exec env cmd v
   \<and> trace (after_exec env cmd v) = trace v @ [ExecCommand cmd]
   \<and> downloadWithRetry env cmd fullPath fname 3 w =
       (let w1 = after_exec env cmd w;
            w2 = after_exec env cmd (logged (SetTimeout 1000) w1);
            w3 = after_exec env cmd (logged (SetTimeout 2000) w2)
        in if attempt_succeeds env cmd fullPath w then (Inr True, w1)
           else if attempt_succeeds env cmd fullPath (logged (SetTimeout 1000) w1) then (Inr True, w2)
           else if attempt_succeeds env cmd fullPath (logged (SetTimeout 2000) w2) then (Inr True, w3)
           else (Inr False, logged (ToastError (''Failed to download '' @ fname)) w3))
   \<and> (\<not> attempt_succeeds env cmd fullPath w
        \<and> \<not> attempt_succeeds env cmd fullPath (logged (SetTimeout 1000) (after_exec env cmd w))
        \<and> \<not> attempt_succeeds env cmd fullPath
              (logged (SetTimeout 2000) (after_exec env cmd (logged (SetTimeout 1000) (after_exec env cmd w))))
        \<longrightarrow>
        fst (downloadWithRetry env cmd fullPath fname 3 w) = Inr False
        \<and> trace (snd (downloadWithRetry env cmd fullPath fname 3 w)) =
            trace w @ [ExecCommand cmd, SetTimeout 1000, ExecCommand cmd, SetTimeout 2000, ExecCommand cmd,
                       ToastError (''Failed to download '' @ fname)])
   \<and> (\<not> attempt_succeeds env cmd fullPath w
        \<and> attempt_succeeds env cmd fullPath (logged (SetTimeout 1000) (after_exec env cmd w)) \<longrightarrow>
        fst (downloadWithRetry env cmd fullPath fname 3 w) = Inr True
        \<and> trace (snd (downloadWithRetry env cmd fullPath fname 3 w)) =
            trace w @ [ExecCommand cmd, SetTimeout 1000, ExecCommand cmd])"
proof (intro conjI impI)
  show "fst (download_attempt env cmd fullPath v) = Inr True \<longleftrightarrow> attempt_succeeds env cmd fullPath v"
    by (simp add: download_attempt_result)
next
  show "snd (download_attempt env cmd fullPath v) = after_exec env cmd v"
    by (rule download_attempt_world)
next
  show "trace (after_exec env cmd v) = trace v @ [ExecCommand cmd]"
    by (rule trace_after_exec)
next
  show "downloadWithRetry env cmd fullPath fname 3 w =
       (let w1 = after_exec env cmd w;
            w2 = after_exec env cmd (logged (SetTimeout 1000) w1);
            w3 = after_exec env cmd (logged (SetTimeout 2000) w2)
        in if attempt_succeeds env cmd fullPath w then (Inr True, w1)
           else if attempt_succeeds env cmd fullPath (logged (SetTimeout 1000) w1) then (Inr True, w2)
           else if attempt_succeeds env cmd fullPath (logged (SetTimeout 2000) w2) then (Inr True, w3)
           else (Inr False, logged (ToastError (''Failed to download '' @ fname)) w3))"
    by (rule retry3)
next
  assume h: "\<not> attempt_succeeds env cmd fullPath w
        \<and> \<not> attempt_succeeds env cmd fullPath (logged (SetTimeout 1000) (after_exec env cmd w))
        \<and> \<not> attempt_succeeds env cmd fullPath
              (logged (SetTimeout 2000) (after_exec env cmd (logged (SetTimeout 1000) (after_exec env cmd w))))"
  show "fst (downloadWithRetry env cmd fullPath fname 3 w) = Inr False"
    by (cases rule: retry3_cases [of env cmd fullPath fname w]) (use h in auto)
  show "trace (snd (downloadWithRetry env cmd fullPath fname 3 w)) =
            trace w @ [ExecCommand cmd, SetTimeout 1000, ExecCommand cmd, SetTimeout 2000, ExecCommand cmd,
                       ToastError (''Failed to download '' @ fname)]"
    by (cases rule: retry3_cases [of env cmd fullPath fname w])
       (use h in \<open>auto simp add: trace_after_exec trace_logged\<close>)
next
  assume h: "\<not> attempt_succeeds env cmd fullPath w
        \<and> attempt_succeeds env cmd fullPath (logged (SetTimeout 1000) (after_exec env cmd w))"
  show "fst (downloadWithRetry env cmd fullPath fname 3 w) = Inr True"
    by (cases rule: retry3_cases [of env cmd fullPath fname w]) (use h in auto)
  show "trace (snd (downloadWithRetry env cmd fullPath fname 3 w)) =
            trace w @ [ExecCommand cmd, SetTimeout 1000, ExecCommand cmd]"
    by (cases rule: retry3_cases [of env cmd fullPath fname w])
       (use h in \<open>auto simp add: trace_after_exec trace_logged\<close>)
qed

theorem downloadWithRetry_retry_law_witness:
  "\<not> attempt_succeeds host_offline ''curl'' ''/t/a.jar'' world0
   \<and> \<not> attempt_succeeds host_offline ''curl'' ''/t/a.jar''
         (logged (SetTimeout 1000) (after_exec host_offline ''curl'' world0))
   \<and> \<not> attempt_succeeds host_offline ''curl'' ''/t/a.jar''
         (logged (SetTimeout 2000) (after_exec host_offline ''curl''
           (logged (SetTimeout 1000) (after_exec host_offline ''curl'' world0))))
   \<and> fst (downloadWithRetry host_offline ''curl'' ''/t/a.jar'' ''a.jar'' 3 world0) = Inr False
   \<and> trace (snd (downloadWithRetry host_offline ''curl'' ''/t/a.jar'' ''a.jar'' 3 world0)) =
       [ExecCommand ''curl'', SetTimeout 1000, ExecCommand ''curl'', SetTimeout 2000, ExecCommand ''curl'',
        ToastError ''Failed to download a.jar'']
   \<and> \<not> attempt_succeeds host_flaky ''curl'' ''/t/a.jar'' world0
   \<and> attempt_succeeds host_flaky ''curl'' ''/t/a.jar'' (logged (SetTimeout 1000) (after_exec host_flaky ''curl'' world0))
   \<and> fst (downloadWithRetry host_flaky ''curl'' ''/t/a.jar'' ''a.jar'' 3 world0) = Inr True
   \<and> trace (snd (downloadWithRetry host_flaky ''curl'' ''/t/a.jar'' ''a.jar'' 3 world0)) =
       [ExecCommand ''curl'', SetTimeout 1000, ExecCommand ''curl'']"
proof -
  have off: "\<And>u. \<not> attempt_succeeds host_offline ''curl'' ''/t/a.jar'' u"
    by (simp add: attempt_succeeds_def host_offline_def curl_fails_def)
  have f1: "\<not> attempt_succeeds host_flaky ''curl'' ''/t/a.jar'' world0"
    by (simp add: attempt_succeeds_def host_flaky_def host_offline_def curl_fails_def world0_def)
  have f2: "attempt_succeeds host_flaky ''curl'' ''/t/a.jar''
              (logged (SetTimeout 1000) (after_exec host_flaky ''curl'' world0))"
    by (simp add: attempt_succeeds_def host_flaky_def host_offline_def curl_ok_def world0_def
        logged_def after_exec_def)
  have t0: "trace world0 = []"
    by (simp add: world0_def)
  note all_fail = downloadWithRetry_retry_law
      [of host_offline "''curl''" "''/t/a.jar''" world0 "''a.jar''" world0,
       THEN conjunct2, THEN conjunct2, THEN conjunct2, THEN conjunct2, THEN conjunct1, THEN mp]
  note once = downloadWithRetry_retry_law
      [of host_flaky "''curl''" "''/t/a.jar''" world0 "''a.jar''" world0,
       THEN conjunct2, THEN conjunct2, THEN conjunct2, THEN conjunct2, THEN conjunct2, THEN mp]
  have a: "fst (downloadWithRetry host_offline ''curl'' ''/t/a.jar'' ''a.jar'' 3 world0) = Inr False
     \<and> trace (snd (downloadWithRetry host_offline ''curl'' ''/t/a.jar'' ''a.jar'' 3 world0)) =
       [ExecCommand ''curl'', SetTimeout 1000, ExecCommand ''curl'', SetTimeout 2000, ExecCommand ''curl'',
        ToastError ''Failed to download a.jar'']"
    using all_fail off t0 by simp
  have b: "fst (downloadWithRetry host_flaky ''curl'' ''/t/a.jar'' ''a.jar'' 3 world0) = Inr True
     \<and> trace (snd (downloadWithRetry host_flaky ''curl'' ''/t/a.jar'' ''a.jar'' 3 world0)) =
       [ExecCommand ''curl'', SetTimeout 1000, ExecCommand ''curl'']"
    using once f1 f2 t0 by simp
  show ?thesis
    using off f1 f2 a b by simp
qed

section \<open>The effects of a batch download\<close>

lemma offline_attempt: "transfers_always_fail env \<Longrightarrow> \<not> attempt_succeeds env cmd p u"
  by (simp add: transfers_always_fail_def attempt_succeeds_def split: prod.splits)
     (metis fst_conv)

lemma downloadWithRetry_trace:
  "\<exists>k ok w'. wf_outcome (made, k, ok) \<and> downloadWithRetry env cmd p f 3 w = (Inr ok, w')
     \<and> trace w' = trace w @ retry_trace cmd f k ok
     \<and> (transfers_always_fail env \<longrightarrow> k = 3 \<and> \<not> ok)"
proof (cases rule: retry3_cases [of env cmd p f w])
  case first
  then show ?thesis
    using offline_attempt [of env cmd p]
    by (intro exI [of _ 1] exI [of _ True]) (auto simp add: wf_outcome_def retry_trace_def trace_after_exec)
next
  case second
  then show ?thesis
    using offline_attempt [of env cmd p]
    by (intro exI [of _ 2] exI [of _ True])
       (auto simp add: wf_outcome_def retry_trace_def trace_after_exec trace_logged numeral_2_eq_2)
next
  case third
  then show ?thesis
    using offline_attempt [of env cmd p]
    by (intro exI [of _ 3] exI [of _ True])
       (auto simp add: wf_outcome_def retry_trace_def trace_after_exec trace_logged numeral_3_eq_3)
next
  case failed
  then show ?thesis
    by (intro exI [of _ 3] exI [of _ False])
       (simp add: wf_outcome_def retry_trace_def trace_after_exec trace_logged numeral_3_eq_3)
qed

lemma createDirectory_eq: "createDirectory p w = (Inr (), (logged (CreateDirectory p) w)\<lparr>fs := (fs w)(p \<mapsto> Directory)\<rparr>)"
  by (simp add: createDirectory_def logged_def)

lemma downloadFiles_loop_trace:
  "\<exists>ocs w'. downloadFiles_loop env fls t c tot failed w = (Inr (failed @ batch_failed fls ocs), w')
      \<and> length ocs = length (non_index fls) \<and> list_all wf_outcome ocs
      \<and> trace w' = trace w @ batch_trace t tot fls c ocs
      \<and> (transfers_always_fail env \<longrightarrow> all_failed ocs)"
proof (induction fls arbitrary: c failed w)
  case Nil
  show ?case by (simp add: ret_apply non_index_def all_failed_def)
next
  case (Cons f0 rest)
  show ?case
  proof (cases "is_index f0")
    case True
    obtain ocs w' where "downloadFiles_loop env rest t (c + 1) tot failed w = (Inr (failed @ batch_failed rest ocs), w')"
      "length ocs = length (non_index rest)" "list_all wf_outcome ocs"
      "trace w' = trace w @ batch_trace t tot rest (c + 1) ocs"
      "transfers_always_fail env \<longrightarrow> all_failed ocs"
      using Cons.IH [of "c + 1" failed w] by blast
    with True show ?thesis
      by (intro exI [of _ ocs] exI [of _ w']) (simp add: non_index_def)
  next
    case False
    define fullPath where "fullPath = path_join [t, filename f0]"
    define dirPath where "dirPath = path_dirname fullPath"
    define made where "made = (fs w dirPath = None)"
    define w1 where "w1 = (if made then (logged (CreateDirectory dirPath) w)\<lparr>fs := (fs w)(dirPath \<mapsto> Directory)\<rparr> else w)"
    define w2 where "w2 = logged (progress_of f0 c tot) w1"
    obtain k ok w3 where r: "wf_outcome (made, k, ok)"
      "downloadWithRetry env (curl_file fullPath (download_url f0)) fullPath (filename f0) 3 w2 = (Inr ok, w3)"
      "trace w3 = trace w2 @ retry_trace (curl_file fullPath (download_url f0)) (filename f0) k ok"
      "transfers_always_fail env \<longrightarrow> k = 3 \<and> \<not> ok"
      using downloadWithRetry_trace by blast
    define failed1 where "failed1 = (if \<not> ok then failed @ [filename f0] else failed)"
    obtain ocs w' where ih: "downloadFiles_loop env rest t (Suc c) tot failed1 w3 = (Inr (failed1 @ batch_failed rest ocs), w')"
      "length ocs = length (non_index rest)" "list_all wf_outcome ocs"
      "trace w' = trace w3 @ batch_trace t tot rest (Suc c) ocs"
      "transfers_always_fail env \<longrightarrow> all_failed ocs"
      using Cons.IH [of "Suc c" failed1 w3] by blast
    have unfolded: "downloadFiles_loop env (f0 # rest) t c tot failed w =
        (case downloadWithRetry env (curl_file fullPath (download_url f0)) fullPath (filename f0) 3 w2 of
           (Inl e, w') \<Rightarrow> (Inl e, w')
         | (Inr success, w') \<Rightarrow>
             downloadFiles_loop env rest t (Suc c) tot
               (if \<not> success then failed @ [filename f0] else failed) w')"
      using False
      by (cases "fs w dirPath")
         (simp_all add: Let_def pathExists_eq bnd_apply createDirectory_eq ret_apply perform_eq
          fullPath_def [symmetric] dirPath_def [symmetric] made_def w1_def w2_def progress_of_def)
    have step: "downloadFiles_loop env (f0 # rest) t c tot failed w =
        downloadFiles_loop env rest t (Suc c) tot failed1 w3"
      unfolding unfolded r(2) failed1_def by simp
    have tr: "trace w3 = trace w @ file_trace t tot f0 c (made, k, ok)"
      using r(3)
      by (simp add: file_trace_def w2_def w1_def trace_logged command_of_def fullPath_def dirPath_def)
    show ?thesis
      using False step ih tr r(1) r(4)
      by (intro exI [of _ "(made, k, ok) # ocs"] exI [of _ w'])
         (simp add: non_index_def failed1_def all_failed_def)
  qed
qed

lemma downloadFiles_trace:
  "\<exists>ocs w'. downloadFiles env fls t c tot w = (Inr (), w')
      \<and> length ocs = length (non_index fls) \<and> list_all wf_outcome ocs
      \<and> trace w' = trace w @ batch_trace t tot fls c ocs @ summary_of (batch_failed fls ocs)
      \<and> (transfers_always_fail env \<longrightarrow> all_failed ocs)"
proof -
  obtain ocs w1 where l: "downloadFiles_loop env fls t c tot [] w = (Inr ([] @ batch_failed fls ocs), w1)"
    "length ocs = length (non_index fls)" "list_all wf_outcome ocs"
    "trace w1 = trace w @ batch_trace t tot fls c ocs"
    "transfers_always_fail env \<longrightarrow> all_failed ocs"
    using downloadFiles_loop_trace [of env fls t c tot "[]" w] by blast
  show ?thesis
  proof (cases "batch_failed fls ocs = []")
    case True
    with l show ?thesis
      by (intro exI [of _ ocs] exI [of _ w1])
         (simp add: downloadFiles_def bnd_apply ret_apply summary_of_def)
  next
    case False
    with l show ?thesis
      by (intro exI [of _ ocs]
            exI [of _ "logged (ToastErrorDescribed (failure_summary (batch_failed fls ocs))
                        ''Some files might be missing from the installation'') w1"])
         (simp add: downloadFiles_def bnd_apply perform_eq summary_of_def trace_logged)
  qed
qed

lemma download_fileTypes_trace:
  "\<exists>cats w'. download_fileTypes env types fls dir c tot w = (Inr (), w')
      \<and> wf_categories types fls cats
      \<and> trace w' = trace w @ types_trace dir tot types fls c cats
      \<and> (transfers_always_fail env \<longrightarrow> all_categories_failed cats)"
proof (induction types arbitrary: c w)
  case Nil
  show ?case by (simp add: ret_apply all_categories_failed_def)
next
  case (Cons ty rest)
  obtain fileType member where ty: "ty = (fileType, member)"
    by (cases ty)
  show ?case
  proof (cases "member fls = []")
    case True
    obtain cats w' where "download_fileTypes env rest fls dir c tot w = (Inr (), w')"
      "wf_categories rest fls cats" "trace w' = trace w @ types_trace dir tot rest fls c cats"
      "transfers_always_fail env \<longrightarrow> all_categories_failed cats"
      using Cons.IH [of c w] by blast
    with True ty show ?thesis
      by (intro exI [of _ cats] exI [of _ w']) simp
  next
    case False
    define targetPath where "targetPath = path_join [dir, fileType]"
    define made where "made = (fs w targetPath = None)"
    define w1 where "w1 = (if made then (logged (CreateDirectory targetPath) w)\<lparr>fs := (fs w)(targetPath \<mapsto> Directory)\<rparr> else w)"
    obtain ocs w2 where d: "downloadFiles env (member fls) targetPath c tot w1 = (Inr (), w2)"
      "length ocs = length (non_index (member fls))" "list_all wf_outcome ocs"
      "trace w2 = trace w1 @ batch_trace targetPath tot (member fls) c ocs @ summary_of (batch_failed (member fls) ocs)"
      "transfers_always_fail env \<longrightarrow> all_failed ocs"
      using downloadFiles_trace by blast
    define c' where "c' = c + length (non_index (member fls))"
    obtain cats w' where ih: "download_fileTypes env rest fls dir c' tot w2 = (Inr (), w')"
      "wf_categories rest fls cats" "trace w' = trace w2 @ types_trace dir tot rest fls c' cats"
      "transfers_always_fail env \<longrightarrow> all_categories_failed cats"
      using Cons.IH [of c' w2] by blast
    have unfolded: "download_fileTypes env (ty # rest) fls dir c tot w =
        (case downloadFiles env (member fls) targetPath c tot w1 of
           (Inl e, v) \<Rightarrow> (Inl e, v)
         | (Inr u, v) \<Rightarrow> download_fileTypes env rest fls dir (c + length (filter (\<lambda>f. \<not> is_index f) (member fls))) tot v)"
      using False ty
      by (cases "fs w targetPath")
         (simp_all add: Let_def pathExists_eq bnd_apply createDirectory_eq ret_apply
          targetPath_def [symmetric] made_def w1_def)
    have step: "download_fileTypes env (ty # rest) fls dir c tot w = (Inr (), w')"
      unfolding unfolded d(1) using ih(1) by (simp add: c'_def non_index_def)
    have tr: "trace w1 = trace w @ (if made then [CreateDirectory targetPath] else [])"
      by (simp add: w1_def trace_logged)
    show ?thesis
      using False ty step d(2-5) ih(2-4) tr
      by (intro exI [of _ "(made, ocs) # cats"] exI [of _ w'])
         (simp add: targetPath_def c'_def all_categories_failed_def)
  qed
qed

section \<open>The stages of an installation\<close>

lemma writeFile_eq: "writeFile p c w = (Inr (), (logged (WriteFile p c) w)\<lparr>fs := (fs w)(p \<mapsto> RegularFile c)\<rparr>)"
  by (simp add: writeFile_def logged_def)

lemma remove_eq: "remove p w = (Inr (), (logged (Remove p) w)\<lparr>fs := (\<lambda>q. if within_tree p q then None else fs w q)\<rparr>)"
  by (simp add: remove_def logged_def)

lemma prepare_directories_trace:
  "\<exists>xs w'. prepare_directories p w = (Inr (), w') \<and> trace w' = trace w @ xs \<and> list_all is_fs_write xs"
  by (cases "fs w p"; cases "fs w (path_join [p, ''.minecraft''])";
      cases "path_join [p, ''.minecraft''] = p")
     (simp_all add: prepare_directories_def bnd_apply pathExists_eq createDirectory_eq ret_apply trace_logged logged_def)

section \<open>The profile store update\<close>

lemma read_store:
  "bnd (pathExists pp) (\<lambda>exists. bnd (if exists then bnd (readFile pp) JSON_parse else ret empty_profiles) K) w =
     (case initial_store (fs w) pp of Inl e \<Rightarrow> (Inl e, w) | Inr store \<Rightarrow> K store w)"
  by (simp add: bnd_apply pathExists_eq initial_store_def readFile_def JSON_parse_def ret_apply throw_apply
      split: option.splits node.splits content.splits)

lemma new_Date_eq: "new_Date_toISOString env w = (Inr (toISOString env (dates w)), w\<lparr>dates := Suc (dates w)\<rparr>)"
  by (simp add: new_Date_toISOString_def)

lemma lift_apply: "lift r w = (r, w)"
  by (simp add: lift_def)

lemma assign_upsert:
  "store \<noteq> JNull \<Longrightarrow>
   assign_profile store (get_property store ''profiles'') pid prof v =
     (upsert_profile store pid prof, v)"
  by (cases store)
     (auto simp add: assign_profile_def upsert_profile_def ret_apply throw_apply
       split: option.splits json.splits)

lemma updateLauncherProfiles_eq:
  "updateLauncherProfiles env mc nm ip ja w =
     (case initial_store (fs w) (profiles_path mc) of
        Inl e \<Rightarrow> (Inl e, logged profiles_toast w)
      | Inr store \<Rightarrow>
          if store = JNull then (Inl TypeError, logged profiles_toast w)
          else
            (case getBase64FromImageUrl env of
               Inl e \<Rightarrow> (Inl e, logged profiles_toast (w\<lparr>dates := Suc (dates w)\<rparr>))
             | Inr icon \<Rightarrow>
                 (case upsert_profile store (profileId_of nm)
                         (launcher_profile (toISOString env (dates w)) icon nm
                            (toISOString env (Suc (dates w))) ip ja) of
                    Inl e \<Rightarrow> (Inl e, logged profiles_toast (w\<lparr>dates := Suc (Suc (dates w))\<rparr>))
                  | Inr store' \<Rightarrow>
                      (Inr (), w\<lparr>fs := (fs w)(profiles_path mc \<mapsto> RegularFile (Json store')),
                                 trace := trace w @ [WriteFile (profiles_path mc) (Json store')],
                                 dates := Suc (Suc (dates w))\<rparr>))))"
proof (cases "initial_store (fs w) (profiles_path mc)")
  case (Inl e)
  then show ?thesis
    by (simp only: updateLauncherProfiles_def Let_def try_catch_apply profiles_path_def [symmetric] read_store)
           (simp add: bnd_apply perform_eq throw_apply profiles_toast_def)
next
  case (Inr store)
  show ?thesis
  proof (cases "store = JNull")
    case True
    with Inr show ?thesis
      by (simp only: updateLauncherProfiles_def Let_def try_catch_apply profiles_path_def [symmetric] read_store)
           (simp add: bnd_apply perform_eq throw_apply profiles_toast_def
          read_profiles_member_def)
  next
    case False
    then have rd: "read_profiles_member store = ret (get_property store ''profiles'')"
      by (cases store) (simp_all add: read_profiles_member_def)
    show ?thesis
    proof (cases "getBase64FromImageUrl env")
      case (Inl e)
      with Inr False rd show ?thesis
        by (simp only: updateLauncherProfiles_def Let_def try_catch_apply profiles_path_def [symmetric] read_store)
           (simp add: bnd_apply perform_eq throw_apply profiles_toast_def
            ret_apply new_Date_eq lift_apply)
    next
      case icon: (Inr icon)
      show ?thesis
      proof (cases "upsert_profile store (profileId_of nm)
                         (launcher_profile (toISOString env (dates w)) icon nm
                            (toISOString env (Suc (dates w))) ip ja)")
        case (Inl e)
        with Inr False rd icon show ?thesis
          by (simp only: updateLauncherProfiles_def Let_def try_catch_apply profiles_path_def [symmetric] read_store)
           (simp add: bnd_apply perform_eq throw_apply profiles_toast_def
              ret_apply new_Date_eq lift_apply assign_upsert)
      next
        case st: (Inr store')
        with Inr False rd icon show ?thesis
          by (simp only: updateLauncherProfiles_def Let_def try_catch_apply profiles_path_def [symmetric] read_store)
           (simp add: bnd_apply perform_eq throw_apply profiles_toast_def
              ret_apply new_Date_eq lift_apply assign_upsert writeFile_eq logged_def)
      qed
    qed
  qed
qed

lemma writeFile_wrote: "writeFile p c w = (Inr (), wrote p c w)"
  by (simp add: writeFile_def wrote_def)

lemma trace_wrote: "trace (wrote p c w) = trace w @ [WriteFile p c]"
  by (simp add: wrote_def)

lemma write_configuration_minecraft:
  "write_configuration env d Minecraft mc pr ip w =
     updateLauncherProfiles env mc (name d) ip (Some (''-Xmx'' @ recommended_memory (java d)))
       (wrote (path_join [ip, ''instance.json'']) (Json (JObj (instanceConfig_of d))) w)"
  by (simp add: write_configuration_def Let_def bnd_apply writeFile_wrote)

lemma write_configuration_prism:
  "write_configuration env d Prism mc pr ip w =
     (let w1 = wrote (path_join [ip, ''mmc-pack.json'']) (Json (mmcPackJson_of d))
                 (wrote (path_join [ip, ''instance.cfg'']) (Text (generatePrismConfig (instanceConfig_of d))) w);
          iconPath = path_join [pr, ''icons'', ''communivents.png'']
      in if fs w1 iconPath \<noteq> None then (Inr (), w1)
         else (case getArrayBufferFromImageUrl env of
                 Inl e \<Rightarrow> (Inl e, w1)
               | Inr buffer \<Rightarrow> (Inr (), wrote iconPath (Bytes buffer) w1)))"
  by (simp add: write_configuration_def Let_def bnd_apply writeFile_wrote pathExists_eq ret_apply lift_apply
      split: sum.splits)

lemma updateLauncherProfiles_trace:
  assumes "updateLauncherProfiles env mc nm ip ja w = (r, w')"
  shows "\<exists>xs. trace w' = trace w @ xs \<and> (r = Inr () \<longrightarrow> list_all is_fs_write xs)"
  using assms unfolding updateLauncherProfiles_eq
  by (auto simp add: trace_logged split: sum.splits if_splits)

lemma write_configuration_trace:
  assumes "write_configuration env d k mc pr ip w = (r, w')"
  shows "\<exists>xs. trace w' = trace w @ xs \<and> (r = Inr () \<longrightarrow> list_all is_fs_write xs)"
proof (cases k)
  case Minecraft
  with assms have "updateLauncherProfiles env mc (name d) ip (Some (''-Xmx'' @ recommended_memory (java d)))
       (wrote (path_join [ip, ''instance.json'']) (Json (JObj (instanceConfig_of d))) w) = (r, w')"
    by (simp add: write_configuration_minecraft)
  from updateLauncherProfiles_trace [OF this]
  obtain xs where "trace w' = trace (wrote (path_join [ip, ''instance.json'']) (Json (JObj (instanceConfig_of d))) w) @ xs"
    "r = Inr () \<longrightarrow> list_all is_fs_write xs"
    by blast
  then show ?thesis
    by (intro exI [of _ "WriteFile (path_join [ip, ''instance.json'']) (Json (JObj (instanceConfig_of d))) # xs"])
       (simp add: trace_wrote)
next
  case Prism
  with assms show ?thesis
    by (auto simp add: write_configuration_prism Let_def trace_wrote split: if_splits sum.splits)
qed

lemma downloadMinecraftFiles_eq:
  "downloadMinecraftFiles env urls dir w =
     (Inr (), after_exec env (''curl -X GET -L -o '' @ [dq] @ path_join [dir, ''client.jar''] @ [dq]
                                @ '' '' @ [dq] @ client_jar urls @ [dq]) w)"
  by (simp add: downloadMinecraftFiles_def Let_def bnd_apply os_execCommand_eq ret_apply)

lemma download_instance_files_trace:
  "\<exists>cats w'. download_instance_files env d ip w = (Inr (), w')
     \<and> wf_categories fileTypes (files d) cats
     \<and> trace w' = trace w
          @ types_trace (path_join [ip, ''.minecraft'']) (totalFiles_of (files d)) fileTypes (files d) 0 cats
          @ (if type' (loader d) = Vanilla then [ExecCommand (client_command d ip)] else [])
     \<and> (transfers_always_fail env \<longrightarrow> all_categories_failed cats)"
proof -
  obtain cats w1 where t: "download_fileTypes env fileTypes (files d) (path_join [ip, ''.minecraft'']) 0 (totalFiles_of (files d)) w = (Inr (), w1)"
    "wf_categories fileTypes (files d) cats"
    "trace w1 = trace w @ types_trace (path_join [ip, ''.minecraft'']) (totalFiles_of (files d)) fileTypes (files d) 0 cats"
    "transfers_always_fail env \<longrightarrow> all_categories_failed cats"
    using download_fileTypes_trace by blast
  show ?thesis
  proof (cases "type' (loader d) = Vanilla")
    case True
    with t show ?thesis
      by (intro exI [of _ cats] exI [of _ "after_exec env (client_command d ip) w1"])
         (simp add: download_instance_files_def Let_def bnd_apply downloadMinecraftFiles_eq client_command_def
           trace_after_exec)
  next
    case False
    with t show ?thesis
      by (intro exI [of _ cats] exI [of _ w1])
         (simp add: download_instance_files_def Let_def bnd_apply ret_apply)
  qed
qed

lemma complete_instance_eq:
  "complete_instance d ip w =
     (Inr True, logged (ToastSuccess (''Created '' @ [dq] @ name d @ [dq] @ '' instance!''))
                  (logged (Dispatch (instanceCreationComplete (name d) ip)) w))"
  by (simp add: complete_instance_def bnd_apply perform_eq ret_apply)

lemma remove_removed: "remove p w = (Inr (), removed p w)"
  by (simp add: remove_def removed_def)

lemma trace_removed: "trace (removed p w) = trace w @ [Remove p]"
  by (simp add: removed_def)

lemma createMinecraftInstance_eq:
  "createMinecraftInstance env d k force w =
     (case create_paths env k (name d) of
        Inl e \<Rightarrow> (Inl e, logged (Dispatch (instanceCreationError e)) w)
      | Inr (mc, pr, ip) \<Rightarrow>
          if fs w ip \<noteq> None \<and> \<not> force then (Inr False, w)
          else
            (case install_instance env d k mc pr ip (if fs w ip \<noteq> None then removed ip w else w) of
               (Inl e, w') \<Rightarrow> (Inl e, logged (Dispatch (instanceCreationError e)) w')
             | (Inr b, w') \<Rightarrow> (Inr b, w')))"
  by (cases "create_basePath env"; cases "create_minecraftPath env (projr (create_basePath env))";
      cases "create_prismPath env (projr (create_basePath env))"; cases k)
     (simp_all add: createMinecraftInstance_def create_paths_def try_catch_apply bnd_apply lift_apply
       ret_apply throw_apply pathExists_eq perform_eq remove_removed split: prod.splits sum.splits)

lemma prepare_directories_prepared:
  "prepare_directories ip w = (Inr (), prepared ip w)"
  using prepare_directories_trace [of ip w] by (auto simp add: prepared_def)

lemma trace_prepared:
  "\<exists>xs. trace (prepared ip w) = trace w @ xs \<and> list_all is_fs_write xs"
  using prepare_directories_trace [of ip w] by (auto simp add: prepared_def)

lemma install_instance_result:
  "fst (install_instance env d k mc pr ip w) =
     (case fst (write_configuration env d k mc pr ip (prepared ip w)) of
        Inl e \<Rightarrow> Inl e
      | Inr u \<Rightarrow> Inr True)"
proof (cases "write_configuration env d k mc pr ip (prepared ip w)")
  case (Pair r w1)
  obtain cats w2 where "download_instance_files env d ip w1 = (Inr (), w2)"
    using download_instance_files_trace by blast
  with Pair show ?thesis
    by (cases r)
       (simp_all add: install_instance_def bnd_apply prepare_directories_prepared complete_instance_eq)
qed

lemma install_instance_shape:
  assumes "install_instance env d k mc pr ip w = (Inr b, w')"
  shows "b \<and> (\<exists>pre cats.
           list_all is_fs_write pre
         \<and> wf_categories fileTypes (files d) cats
         \<and> (transfers_always_fail env \<longrightarrow> all_categories_failed cats)
         \<and> trace w' = trace w @ pre
              @ types_trace (path_join [ip, ''.minecraft'']) (totalFiles_of (files d)) fileTypes (files d) 0 cats
              @ (if type' (loader d) = Vanilla then [ExecCommand (client_command d ip)] else [])
              @ [Dispatch (instanceCreationComplete (name d) ip),
                 ToastSuccess (''Created '' @ [dq] @ name d @ [dq] @ '' instance!'')])"
proof (cases "write_configuration env d k mc pr ip (prepared ip w)")
  case (Pair r w1)
  obtain cats w2 where dl: "download_instance_files env d ip w1 = (Inr (), w2)"
    "wf_categories fileTypes (files d) cats"
    "trace w2 = trace w1
          @ types_trace (path_join [ip, ''.minecraft'']) (totalFiles_of (files d)) fileTypes (files d) 0 cats
          @ (if type' (loader d) = Vanilla then [ExecCommand (client_command d ip)] else [])"
    "transfers_always_fail env \<longrightarrow> all_categories_failed cats"
    using download_instance_files_trace by blast
  have r: "r = Inr ()"
    using assms Pair
    by (cases r) (simp_all add: install_instance_def bnd_apply prepare_directories_prepared)
  obtain xs where xs: "trace (prepared ip w) = trace w @ xs" "list_all is_fs_write xs"
    using trace_prepared by blast
  obtain ys where ys: "trace w1 = trace (prepared ip w) @ ys" "list_all is_fs_write ys"
    using write_configuration_trace [OF Pair] r by blast
  have res: "b" "w' = logged (ToastSuccess (''Created '' @ [dq] @ name d @ [dq] @ '' instance!''))
                  (logged (Dispatch (instanceCreationComplete (name d) ip)) w2)"
    using assms Pair r dl(1)
    by (simp_all add: install_instance_def bnd_apply prepare_directories_prepared complete_instance_eq)
  show ?thesis
    using res dl(2-4) xs ys
    by (intro conjI exI [of _ "xs @ ys"] exI [of _ cats]) (simp_all add: trace_logged)
qed

lemma run_shape:
  assumes "createMinecraftInstance env d k force w = (Inr True, w')"
  shows "\<exists>mc pr ip pre cats.
           create_paths env k (name d) = Inr (mc, pr, ip)
         \<and> list_all is_fs_write pre
         \<and> wf_categories fileTypes (files d) cats
         \<and> (transfers_always_fail env \<longrightarrow> all_categories_failed cats)
         \<and> trace w' = trace w @ pre
              @ types_trace (path_join [ip, ''.minecraft'']) (totalFiles_of (files d)) fileTypes (files d) 0 cats
              @ (if type' (loader d) = Vanilla then [ExecCommand (client_command d ip)] else [])
              @ [Dispatch (instanceCreationComplete (name d) ip),
                 ToastSuccess (''Created '' @ [dq] @ name d @ [dq] @ '' instance!'')]"
proof (cases "create_paths env k (name d)")
  case (Inl e)
  with assms show ?thesis by (simp add: createMinecraftInstance_eq)
next
  case (Inr paths)
  obtain mc pr ip where paths: "paths = (mc, pr, ip)"
    by (cases paths)
  define w0 where "w0 = (if fs w ip \<noteq> None then removed ip w else w)"
  have inst: "install_instance env d k mc pr ip w0 = (Inr True, w')"
    using assms Inr paths
    by (simp add: createMinecraftInstance_eq w0_def split: if_splits prod.splits sum.splits)
  obtain pre cats where s: "list_all is_fs_write pre"
      "wf_categories fileTypes (files d) cats"
      "transfers_always_fail env \<longrightarrow> all_categories_failed cats"
      "trace w' = trace w0 @ pre
              @ types_trace (path_join [ip, ''.minecraft'']) (totalFiles_of (files d)) fileTypes (files d) 0 cats
              @ (if type' (loader d) = Vanilla then [ExecCommand (client_command d ip)] else [])
              @ [Dispatch (instanceCreationComplete (name d) ip),
                 ToastSuccess (''Created '' @ [dq] @ name d @ [dq] @ '' instance!'')]"
    using install_instance_shape [OF inst] by blast
  have "\<exists>zs. trace w0 = trace w @ zs \<and> list_all is_fs_write zs"
    by (simp add: w0_def trace_removed)
  then obtain zs where zs: "trace w0 = trace w @ zs" "list_all is_fs_write zs"
    by blast
  show ?thesis
    using Inr paths s zs
    by (intro exI [of _ mc] exI [of _ pr] exI [of _ ip] exI [of _ "zs @ pre"] exI [of _ cats]) simp
qed

lemma createMinecraftInstance_succeeds:
  assumes "create_paths env k (name d) = Inr (mc, pr, ip)"
    and "fs w ip = None \<or> force"
    and "fst (write_configuration env d k mc pr ip
                (prepared ip (if fs w ip \<noteq> None then removed ip w else w))) = Inr ()"
  shows "fst (createMinecraftInstance env d k force w) = Inr True"
proof -
  define w0 where "w0 = (if fs w ip \<noteq> None then removed ip w else w)"
  have "fst (install_instance env d k mc pr ip w0) = Inr True"
    using assms(3) by (simp add: install_instance_result w0_def)
  then obtain w' where i: "install_instance env d k mc pr ip w0 = (Inr True, w')"
    by (cases "install_instance env d k mc pr ip w0") simp
  have c: "\<not> (fs w ip \<noteq> None \<and> \<not> force)"
    using assms(2) by auto
  show ?thesis
    unfolding createMinecraftInstance_eq assms(1) using c i
    by (simp add: w0_def [symmetric] del: not_None_eq)
qed

section \<open>Views of a trace\<close>

lemma progress_or_transfer_simps:
  "is_progress_or_transfer (CreateDirectory p) = False"
  "is_progress_or_transfer (WriteFile p ct) = False"
  "is_progress_or_transfer (Remove p) = False"
  "is_progress_or_transfer (ExecCommand cmd) = True"
  "is_progress_or_transfer (SetTimeout ms) = False"
  "is_progress_or_transfer (ToastError m) = False"
  "is_progress_or_transfer (ToastErrorDescribed m ds) = False"
  "is_progress_or_transfer (ToastSuccess m) = False"
  "is_progress_or_transfer (Dispatch (instanceCreationComplete nm p)) = False"
  "is_progress_or_transfer (Dispatch (instanceCreationError e)) = False"
  "is_progress_or_transfer (Dispatch (instanceCreationProgress fn cu tt pc)) = True"
  by (simp_all add: is_progress_or_transfer_def)

lemma filter_attempts_progress: "filter is_progress (attempts_trace cmd a k) = []"
  by (induction cmd a k rule: attempts_trace.induct) simp_all

lemma filter_attempts_order:
  "filter is_progress_or_transfer (attempts_trace cmd a k) = replicate k (ExecCommand cmd)"
  by (induction cmd a k rule: attempts_trace.induct) (simp_all add: progress_or_transfer_simps)

lemma filter_attempts_summary: "filter is_summary (attempts_trace cmd a k) = []"
  by (induction cmd a k rule: attempts_trace.induct) simp_all

lemma filter_file_progress: "filter is_progress (file_trace t tot f c oc) = [progress_of f c tot]"
  by (cases oc) (simp add: file_trace_def retry_trace_def filter_attempts_progress progress_of_def)

lemma filter_file_order:
  "filter is_progress_or_transfer (file_trace t tot f c oc) =
     progress_of f c tot # replicate (fst (snd oc)) (ExecCommand (command_of t f))"
  by (cases oc)
     (simp add: file_trace_def retry_trace_def filter_attempts_order progress_of_def
       progress_or_transfer_simps)

lemma filter_file_summary: "filter is_summary (file_trace t tot f c oc) = []"
  by (cases oc) (simp add: file_trace_def retry_trace_def filter_attempts_summary progress_of_def)

lemma filter_batch_progress:
  "length ocs = length (non_index fls) \<Longrightarrow>
   filter is_progress (batch_trace t tot fls c ocs) = batch_progress tot fls c"
proof (induction fls arbitrary: c ocs)
  case Nil
  show ?case by simp
next
  case (Cons f0 rest)
  show ?case
  proof (cases "is_index f0")
    case True
    with Cons show ?thesis by (simp add: non_index_def)
  next
    case False
    with Cons.prems obtain oc ocs' where "ocs = oc # ocs'" "length ocs' = length (non_index rest)"
      by (cases ocs) (simp_all add: non_index_def)
    with False Cons.IH [of ocs' "c + 1"] show ?thesis
      by (simp add: filter_file_progress)
  qed
qed

lemma filter_batch_order:
  "filter is_progress_or_transfer (batch_trace t tot fls c ocs) =
     batch_order t tot fls c (map (\<lambda>oc. fst (snd oc)) ocs)"
proof (induction fls arbitrary: c ocs)
  case Nil
  show ?case by simp
next
  case (Cons f0 rest)
  show ?case
  proof (cases "is_index f0")
    case True
    with Cons show ?thesis by simp
  next
    case False
    with Cons show ?thesis
      by (cases ocs) (simp_all add: filter_file_order)
  qed
qed

lemma filter_batch_summary: "filter is_summary (batch_trace t tot fls c ocs) = []"
proof (induction fls arbitrary: c ocs)
  case Nil
  show ?case by simp
next
  case (Cons f0 rest)
  then show ?case
    by (cases ocs) (simp_all add: filter_file_summary)
qed

lemma filter_summary_progress: "filter is_progress (summary_of failed) = []"
  by (simp add: summary_of_def)

lemma filter_summary_order: "filter is_progress_or_transfer (summary_of failed) = []"
  by (simp add: summary_of_def progress_or_transfer_simps)

lemma filter_summary_summary: "filter is_summary (summary_of failed) = summary_of failed"
  by (simp add: summary_of_def)

lemma filter_types_progress:
  "wf_categories types fls cats \<Longrightarrow>
   filter is_progress (types_trace dir tot types fls c cats) = types_progress tot types fls c"
proof (induction types arbitrary: c cats)
  case Nil
  show ?case by simp
next
  case (Cons ty rest)
  obtain fileType member where ty: "ty = (fileType, member)"
    by (cases ty)
  show ?case
  proof (cases "member fls = []")
    case True
    with Cons ty show ?thesis by (simp add: non_index_def)
  next
    case False
    with Cons.prems ty obtain made ocs cats' where c: "cats = (made, ocs) # cats'"
      "length ocs = length (non_index (member fls))" "wf_categories rest fls cats'"
      by (cases cats) auto
    with False ty Cons.IH [of cats' "c + length (non_index (member fls))"] show ?thesis
      by (simp add: filter_batch_progress filter_summary_progress)
  qed
qed

lemma filter_types_order:
  "wf_categories types fls cats \<Longrightarrow>
   filter is_progress_or_transfer (types_trace dir tot types fls c cats) =
     types_order dir tot types fls c (attempts_of cats)"
proof (induction types arbitrary: c cats)
  case Nil
  show ?case by simp
next
  case (Cons ty rest)
  obtain fileType member where ty: "ty = (fileType, member)"
    by (cases ty)
  show ?case
  proof (cases "member fls = []")
    case True
    with Cons ty show ?thesis by (simp add: non_index_def)
  next
    case False
    with Cons.prems ty obtain made ocs cats' where c: "cats = (made, ocs) # cats'"
      "length ocs = length (non_index (member fls))" "wf_categories rest fls cats'"
      by (cases cats) auto
    with False ty Cons.IH [of cats' "c + length (non_index (member fls))"] show ?thesis
      by (simp add: filter_batch_order filter_summary_order attempts_of_def progress_or_transfer_simps)
  qed
qed

lemma filter_types_summary:
  "wf_categories types fls cats \<Longrightarrow>
   filter is_summary (types_trace dir tot types fls c cats) = concat (map summary_of (failed_of types fls cats))"
proof (induction types arbitrary: c cats)
  case Nil
  show ?case by simp
next
  case (Cons ty rest)
  obtain fileType member where ty: "ty = (fileType, member)"
    by (cases ty)
  show ?case
  proof (cases "member fls = []")
    case True
    with Cons ty show ?thesis by simp
  next
    case False
    with Cons.prems ty obtain made ocs cats' where c: "cats = (made, ocs) # cats'"
      "length ocs = length (non_index (member fls))" "wf_categories rest fls cats'"
      by (cases cats) auto
    with False ty Cons.IH [of cats' "c + length (non_index (member fls))"] show ?thesis
      by (simp add: filter_batch_summary filter_summary_summary)
  qed
qed

lemma fs_write_views:
  "list_all is_fs_write xs \<Longrightarrow> filter is_progress xs = []"
  "list_all is_fs_write xs \<Longrightarrow> filter is_progress_or_transfer xs = []"
  "list_all is_fs_write xs \<Longrightarrow> filter is_summary xs = []"
proof -
  have a: "\<And>e. is_fs_write e \<Longrightarrow> \<not> is_progress e \<and> \<not> is_progress_or_transfer e \<and> \<not> is_summary e"
  proof -
    fix e
    assume "is_fs_write e"
    then show "\<not> is_progress e \<and> \<not> is_progress_or_transfer e \<and> \<not> is_summary e"
      by (cases e) (simp_all add: progress_or_transfer_simps)
  qed
  show "list_all is_fs_write xs \<Longrightarrow> filter is_progress xs = []"
    using a by (induction xs) auto
  show "list_all is_fs_write xs \<Longrightarrow> filter is_progress_or_transfer xs = []"
    using a by (induction xs) auto
  show "list_all is_fs_write xs \<Longrightarrow> filter is_summary xs = []"
    using a by (induction xs) auto
qed

lemma length_attempts_of:
  "wf_categories types fls cats \<Longrightarrow>
   length (attempts_of cats) = length (non_index (concat (map (\<lambda>(fileType, member). member fls) types)))"
proof (induction types arbitrary: cats)
  case Nil
  then show ?case by (simp add: attempts_of_def non_index_def)
next
  case (Cons ty rest)
  obtain fileType member where ty: "ty = (fileType, member)"
    by (cases ty)
  show ?case
  proof (cases "member fls = []")
    case True
    with Cons ty show ?thesis by (simp add: non_index_def)
  next
    case False
    with Cons.prems ty obtain made ocs cats' where c: "cats = (made, ocs) # cats'"
      "length ocs = length (non_index (member fls))" "wf_categories rest fls cats'"
      by (cases cats) auto
    with False ty Cons.IH [of cats'] show ?thesis
      by (simp add: attempts_of_def non_index_def)
  qed
qed

lemma range_attempts_of:
  "wf_categories types fls cats \<Longrightarrow> list_all (\<lambda>k. 1 \<le> k \<and> k \<le> 3) (attempts_of cats)"
proof (induction types arbitrary: cats)
  case Nil
  then show ?case by (simp add: attempts_of_def)
next
  case (Cons ty rest)
  obtain fileType member where ty: "ty = (fileType, member)"
    by (cases ty)
  show ?case
  proof (cases "member fls = []")
    case True
    with Cons ty show ?thesis by simp
  next
    case False
    with Cons.prems ty obtain made ocs cats' where c: "cats = (made, ocs) # cats'"
      "list_all wf_outcome ocs" "wf_categories rest fls cats'"
      by (cases cats) auto
    have "list_all (\<lambda>k. 1 \<le> k \<and> k \<le> 3) (map (\<lambda>oc. fst (snd oc)) ocs)"
      using c(2) by (induction ocs) (auto simp add: wf_outcome_def)
    with c Cons.IH [of cats'] show ?thesis
      by (simp add: attempts_of_def)
  qed
qed

lemma all_failed_counts:
  "all_failed ocs \<Longrightarrow> map (\<lambda>oc. fst (snd oc)) ocs = replicate (length ocs) 3"
  by (induction ocs) (simp_all add: all_failed_def)

lemma all_failed_attempts:
  "all_categories_failed cats \<Longrightarrow> \<exists>n. attempts_of cats = replicate n 3"
proof (induction cats)
  case Nil
  show ?case by (simp add: attempts_of_def)
next
  case (Cons cat cats)
  then have a: "all_failed (snd cat)" and "all_categories_failed cats"
    by (simp_all add: all_categories_failed_def)
  with Cons.IH obtain n where n: "attempts_of cats = replicate n 3"
    by blast
  have "attempts_of (cat # cats) = map (\<lambda>oc. fst (snd oc)) (snd cat) @ attempts_of cats"
    by (simp add: attempts_of_def)
  also have "\<dots> = replicate (length (snd cat)) 3 @ replicate n 3"
    unfolding n all_failed_counts [OF a] ..
  also have "\<dots> = replicate (length (snd cat) + n) 3"
    by (simp add: replicate_add)
  finally show ?case by blast
qed

lemma non_index_Cons:
  "non_index (f0 # rest) = (if is_index f0 then non_index rest else f0 # non_index rest)"
  by (simp add: non_index_def)

lemma all_failed_batch:
  "length ocs = length (non_index fls) \<Longrightarrow> all_failed ocs \<Longrightarrow>
   batch_failed fls ocs = map filename (non_index fls)"
proof (induction fls arbitrary: ocs)
  case Nil
  show ?case by (simp add: non_index_def)
next
  case (Cons f0 rest)
  show ?case
  proof (cases "is_index f0")
    case True
    with Cons show ?thesis by (simp add: non_index_Cons)
  next
    case False
    with Cons.prems(1) have "length ocs = Suc (length (non_index rest))"
      by (simp add: non_index_Cons)
    then obtain oc ocs' where o: "ocs = oc # ocs'" "length ocs' = length (non_index rest)"
      by (cases ocs) simp_all
    with Cons.prems(2) have f: "snd oc = (3, False)" "all_failed ocs'"
      by (simp_all add: all_failed_def)
    obtain made where m: "oc = (made, 3, False)"
      using f(1) by (cases oc) simp
    have "batch_failed rest ocs' = map filename (non_index rest)"
      using Cons.IH [OF o(2) f(2)] .
    with False o(1) m show ?thesis
      by (simp add: non_index_Cons)
  qed
qed

lemma all_failed_categories:
  "wf_categories types fls cats \<Longrightarrow> all_categories_failed cats \<Longrightarrow>
   failed_of types fls cats = all_files_of types fls"
proof (induction types arbitrary: cats)
  case Nil
  show ?case by simp
next
  case (Cons ty rest)
  obtain fileType member where ty: "ty = (fileType, member)"
    by (cases ty)
  show ?case
  proof (cases "member fls = []")
    case True
    with Cons ty show ?thesis by simp
  next
    case False
    with Cons.prems ty obtain made ocs cats' where c: "cats = (made, ocs) # cats'"
      "length ocs = length (non_index (member fls))" "wf_categories rest fls cats'"
      "all_failed ocs" "all_categories_failed cats'"
      by (cases cats) (auto simp add: all_categories_failed_def)
    with False ty Cons.IH [of cats'] show ?thesis
      by (simp add: all_failed_batch)
  qed
qed

lemma offline_host: "transfers_always_fail host_offline"
  by (simp add: transfers_always_fail_def host_offline_def curl_fails_def)

lemma fs_prepared:
  "fs (prepared ip w) q =
     (if (q = ip \<or> q = path_join [ip, ''.minecraft'']) \<and> fs w q = None then Some Directory else fs w q)"
  by (cases "fs w ip"; cases "fs w (path_join [ip, ''.minecraft''])";
      cases "path_join [ip, ''.minecraft''] = ip")
     (auto simp add: prepared_def prepare_directories_def bnd_apply pathExists_eq createDirectory_eq ret_apply logged_def)

lemma fresh_store_configuration:
  assumes "fs w (profiles_path mc) = None"
    and "profiles_path mc \<noteq> path_join [ip, ''instance.json'']"
    and "getBase64FromImageUrl env = Inr icon"
  shows "fst (write_configuration env d Minecraft mc pr ip w) = Inr ()"
  using assms
  by (simp add: write_configuration_minecraft updateLauncherProfiles_eq initial_store_def wrote_def
      empty_profiles_def upsert_profile_def)

lemma pack_paths:
  "create_paths host_offline Minecraft ''Pack'' =
     Inr (''/home/u/.minecraft'', [], ''/home/u/.minecraft/instances/Pack'')"
  by code_simp

lemma pack_profiles_path: "profiles_path ''/home/u/.minecraft'' = ''/home/u/.minecraft/launcher_profiles.json''"
  by code_simp

lemma pack_instance_json:
  "path_join [''/home/u/.minecraft/instances/Pack'', ''instance.json''] = ''/home/u/.minecraft/instances/Pack/instance.json''"
  by code_simp

lemma pack_game_dir:
  "path_join [''/home/u/.minecraft/instances/Pack'', ''.minecraft''] = ''/home/u/.minecraft/instances/Pack/.minecraft''"
  by code_simp

lemma pack_fresh_store:
  "fs (prepared ''/home/u/.minecraft/instances/Pack'' world0) (profiles_path ''/home/u/.minecraft'') = None"
  by (simp add: fs_prepared pack_profiles_path pack_game_dir world0_def)

lemma pack_store_apart:
  "profiles_path ''/home/u/.minecraft'' \<noteq> path_join [''/home/u/.minecraft/instances/Pack'', ''instance.json'']"
  by (simp add: pack_profiles_path pack_instance_json)

lemma offline_icon: "getBase64FromImageUrl host_offline = Inr ''data:image/png;base64,AAAA''"
  by (simp add: host_offline_def)

lemma pack_installs:
  assumes "name d = ''Pack''"
  shows "fst (createMinecraftInstance host_offline d Minecraft False world0) = Inr True"
proof -
  have p: "create_paths host_offline Minecraft (name d) =
     Inr (''/home/u/.minecraft'', [], ''/home/u/.minecraft/instances/Pack'')"
    using assms pack_paths by simp
  have e: "fs world0 ''/home/u/.minecraft/instances/Pack'' = None"
    by (simp add: world0_def)
  have e': "fs world0 ''/home/u/.minecraft/instances/Pack'' = None \<or> False"
    using e by simp
  have w: "(if fs world0 ''/home/u/.minecraft/instances/Pack'' \<noteq> None
            then removed ''/home/u/.minecraft/instances/Pack'' world0 else world0) = world0"
    using e by simp
  have c: "fst (write_configuration host_offline d Minecraft ''/home/u/.minecraft'' []
              ''/home/u/.minecraft/instances/Pack'' (prepared ''/home/u/.minecraft/instances/Pack'' world0)) = Inr ()"
    using fresh_store_configuration [OF pack_fresh_store pack_store_apart offline_icon] .
  show ?thesis
    by (rule createMinecraftInstance_succeeds [OF p e']) (simp only: w c)
qed

section \<open>Views of a whole run\<close>

lemma run_progress:
  assumes "createMinecraftInstance env d k force w = (Inr True, w')"
  shows "filter is_progress (trace w') = filter is_progress (trace w) @ install_progress (files d)"
proof -
  obtain mc pr ip pre cats where s: "list_all is_fs_write pre" "wf_categories fileTypes (files d) cats"
    "trace w' = trace w @ pre
              @ types_trace (path_join [ip, ''.minecraft'']) (totalFiles_of (files d)) fileTypes (files d) 0 cats
              @ (if type' (loader d) = Vanilla then [ExecCommand (client_command d ip)] else [])
              @ [Dispatch (instanceCreationComplete (name d) ip),
                 ToastSuccess (''Created '' @ [dq] @ name d @ [dq] @ '' instance!'')]"
    using run_shape [OF assms] by blast
  show ?thesis
    unfolding s(3) install_progress_def
    by (simp add: fs_write_views(1) [OF s(1)] filter_types_progress [OF s(2)])
qed

lemma run_order:
  assumes "createMinecraftInstance env d k force w = (Inr True, w')"
  shows "\<exists>ip ks. create_instancePath env k (name d) = Inr ip
      \<and> length ks = totalFiles_of (files d)
      \<and> list_all (\<lambda>k. 1 \<le> k \<and> k \<le> 3) ks
      \<and> (transfers_always_fail env \<longrightarrow> ks = replicate (totalFiles_of (files d)) 3)
      \<and> filter is_progress_or_transfer (trace w') =
          filter is_progress_or_transfer (trace w)
          @ types_order (path_join [ip, ''.minecraft'']) (totalFiles_of (files d)) fileTypes (files d) 0 ks
          @ (if type' (loader d) = Vanilla then [ExecCommand (client_command d ip)] else [])"
proof -
  obtain mc pr ip pre cats where s: "create_paths env k (name d) = Inr (mc, pr, ip)"
    "list_all is_fs_write pre" "wf_categories fileTypes (files d) cats"
    "transfers_always_fail env \<longrightarrow> all_categories_failed cats"
    "trace w' = trace w @ pre
              @ types_trace (path_join [ip, ''.minecraft'']) (totalFiles_of (files d)) fileTypes (files d) 0 cats
              @ (if type' (loader d) = Vanilla then [ExecCommand (client_command d ip)] else [])
              @ [Dispatch (instanceCreationComplete (name d) ip),
                 ToastSuccess (''Created '' @ [dq] @ name d @ [dq] @ '' instance!'')]"
    using run_shape [OF assms] by blast
  have len: "length (attempts_of cats) = totalFiles_of (files d)"
    using length_attempts_of [OF s(3)] by (simp add: totalFiles_of_def non_index_def)
  have off: "transfers_always_fail env \<longrightarrow> attempts_of cats = replicate (totalFiles_of (files d)) 3"
  proof
    assume "transfers_always_fail env"
    with s(4) obtain n where n: "attempts_of cats = replicate n 3"
      using all_failed_attempts [of cats] by blast
    with len have "n = totalFiles_of (files d)"
      by simp
    with n show "attempts_of cats = replicate (totalFiles_of (files d)) 3"
      by simp
  qed
  have tr: "filter is_progress_or_transfer (trace w') =
          filter is_progress_or_transfer (trace w)
          @ types_order (path_join [ip, ''.minecraft'']) (totalFiles_of (files d)) fileTypes (files d) 0 (attempts_of cats)
          @ (if type' (loader d) = Vanilla then [ExecCommand (client_command d ip)] else [])"
    unfolding s(5)
    by (simp add: fs_write_views(2) [OF s(2)] filter_types_order [OF s(3)] progress_or_transfer_simps)
  show ?thesis
    using s(1) len off tr range_attempts_of [OF s(3)]
    by (intro exI [of _ ip] exI [of _ "attempts_of cats"]) (simp add: create_instancePath_def)
qed

lemma run_summaries:
  assumes "createMinecraftInstance env d k force w = (Inr True, w')"
  shows "\<exists>failed. (transfers_always_fail env \<longrightarrow> failed = all_files_of fileTypes (files d))
      \<and> filter is_summary (trace w') = filter is_summary (trace w) @ concat (map summary_of failed)"
proof -
  obtain mc pr ip pre cats where s: "create_paths env k (name d) = Inr (mc, pr, ip)"
    "list_all is_fs_write pre" "wf_categories fileTypes (files d) cats"
    "transfers_always_fail env \<longrightarrow> all_categories_failed cats"
    "trace w' = trace w @ pre
              @ types_trace (path_join [ip, ''.minecraft'']) (totalFiles_of (files d)) fileTypes (files d) 0 cats
              @ (if type' (loader d) = Vanilla then [ExecCommand (client_command d ip)] else [])
              @ [Dispatch (instanceCreationComplete (name d) ip),
                 ToastSuccess (''Created '' @ [dq] @ name d @ [dq] @ '' instance!'')]"
    using run_shape [OF assms] by blast
  have off: "transfers_always_fail env \<longrightarrow> failed_of fileTypes (files d) cats = all_files_of fileTypes (files d)"
    using s(4) all_failed_categories [OF s(3)] by auto
  have tr: "filter is_summary (trace w') =
          filter is_summary (trace w) @ concat (map summary_of (failed_of fileTypes (files d) cats))"
    unfolding s(5)
    by (simp add: fs_write_views(3) [OF s(2)] filter_types_summary [OF s(3)])
  show ?thesis
    using off tr by (intro exI [of _ "failed_of fileTypes (files d) cats"]) simp
qed

section \<open>The conflict law\<close>

text \<open>
  C1. Whenever \<open>createMinecraftInstance\<close> of \<open>create.ts\<close> has computed an instance
  path (the operating system is one of the three it knows) and that path exists, a call
  with \<open>forceInstallation = false\<close> returns \<open>false\<close> without throwing and leaves
  the world as it found it: the filesystem is the same, and no write, removal,
  command, event or toast was added to the trace. This holds for every manifest and
  both installation types.
\<close>

theorem conflict_performs_no_write:
  assumes "create_instancePath env installationType (name instanceData) = Inr instancePath"
    and "fs w instancePath \<noteq> None"
  shows "createMinecraftInstance env instanceData installationType False w = (Inr False, w)"
proof -
  obtain mc pr where "create_paths env installationType (name instanceData) = Inr (mc, pr, instancePath)"
    using assms(1) by (auto simp add: create_instancePath_def split: sum.splits)
  then show ?thesis
    using assms(2) by (simp add: createMinecraftInstance_eq)
qed

theorem conflict_performs_no_write_witness:
  "create_instancePath host_offline Minecraft (name vanilla_pack) = Inr ''/home/u/.minecraft/instances/Pack''
   \<and> fs installed_world ''/home/u/.minecraft/instances/Pack'' \<noteq> None
   \<and> createMinecraftInstance host_offline vanilla_pack Minecraft False installed_world = (Inr False, installed_world)"
proof -
  have p: "create_instancePath host_offline Minecraft (name vanilla_pack) = Inr ''/home/u/.minecraft/instances/Pack''"
    by code_simp
  have e: "fs installed_world ''/home/u/.minecraft/instances/Pack'' \<noteq> None"
    by (simp add: installed_world_def)
  show ?thesis
    using p e conflict_performs_no_write [OF p e] by simp
qed

section \<open>Runs on the test hosts\<close>

lemma pack_run:
  assumes "name d = ''Pack''"
  shows "createMinecraftInstance host_offline d Minecraft False world0 =
           (Inr True, snd (createMinecraftInstance host_offline d Minecraft False world0))"
  using pack_installs [OF assms]
  by (cases "createMinecraftInstance host_offline d Minecraft False world0") simp

lemma trace_world0: "trace world0 = []"
  by (simp add: world0_def)

lemma name_vanilla_pack: "name vanilla_pack = ''Pack''"
  by (simp add: vanilla_pack_def)

lemma name_two_marker_pack: "name two_marker_pack = ''Pack''"
  by (simp add: two_marker_pack_def vanilla_pack_def)

lemma name_two_category_pack: "name two_category_pack = ''Pack''"
  by (simp add: two_category_pack_def vanilla_pack_def)

lemma vanilla_pack_progress:
  "install_progress (files vanilla_pack) = [Dispatch (instanceCreationProgress ''a.jar'' 2 1 (Finite 200))]"
  by code_simp

lemma two_marker_pack_progress:
  "install_progress (files two_marker_pack) =
     [Dispatch (instanceCreationProgress ''a.jar'' 3 2 (Finite 150)),
      Dispatch (instanceCreationProgress ''b.zip'' 2 2 (Finite 100))]"
  by code_simp

lemma vanilla_pack_total: "totalFiles_of (files vanilla_pack) = 1"
  by code_simp

lemma two_marker_pack_total: "totalFiles_of (files two_marker_pack) = 2"
  by code_simp


text \<open>
  C3. The progress events of a run, when the manifest lists index markers.
  \<open>downloadFiles\<close> adds one to \<open>currentFileCount\<close> for every entry of a batch, the
  index markers included, while \<open>totalFiles\<close> and the count that the caller carries to
  the next batch leave the markers out. For a manifest whose only category lists
  one index marker before one mod, the run returns \<open>true\<close>, the total is 1, and the only
  progress event has \<open>current = 2\<close> and \<open>percentage = 200\<close>, where
  \<open>round(1 / 1 * 100)\<close> is 100. With two markers before a mod, and one resource
  pack, the total is 2, the current values are 3 then 2 and the percentages 150 then
  100, where \<open>round(k / 2 * 100)\<close> gives 50 then 100. So the percentage of the
  \<open>k\<close>-th file is not \<open>round(k / totalFiles * 100)\<close>, it exceeds 100, and neither
  sequence is non-decreasing.
\<close>

theorem progress_counts_index_markers:
  "fst (createMinecraftInstance host_offline vanilla_pack Minecraft False world0) = Inr True
   \<and> totalFiles_of (files vanilla_pack) = 1
   \<and> filter is_progress (trace (snd (createMinecraftInstance host_offline vanilla_pack Minecraft False world0))) =
       [Dispatch (instanceCreationProgress ''a.jar'' 2 1 (Finite 200))]
   \<and> fst (createMinecraftInstance host_offline two_marker_pack Minecraft False world0) = Inr True
   \<and> totalFiles_of (files two_marker_pack) = 2
   \<and> filter is_progress (trace (snd (createMinecraftInstance host_offline two_marker_pack Minecraft False world0))) =
       [Dispatch (instanceCreationProgress ''a.jar'' 3 2 (Finite 150)),
        Dispatch (instanceCreationProgress ''b.zip'' 2 2 (Finite 100))]"
proof -
  have a: "filter is_progress (trace (snd (createMinecraftInstance host_offline vanilla_pack Minecraft False world0))) =
       [Dispatch (instanceCreationProgress ''a.jar'' 2 1 (Finite 200))]"
    using run_progress [OF pack_run [OF name_vanilla_pack]]
    by (simp add: trace_world0 vanilla_pack_progress)
  have b: "filter is_progress (trace (snd (createMinecraftInstance host_offline two_marker_pack Minecraft False world0))) =
       [Dispatch (instanceCreationProgress ''a.jar'' 3 2 (Finite 150)),
        Dispatch (instanceCreationProgress ''b.zip'' 2 2 (Finite 100))]"
    using run_progress [OF pack_run [OF name_two_marker_pack]]
    by (simp add: trace_world0 two_marker_pack_progress)
  show ?thesis
    using a b pack_installs [OF name_vanilla_pack] pack_installs [OF name_two_marker_pack]
      vanilla_pack_total two_marker_pack_total
    by simp
qed

lemma vanilla_pack_order:
  "types_order (path_join [pack_path, ''.minecraft'']) 1 fileTypes (files vanilla_pack) 0 (replicate 1 3) =
     [Dispatch (instanceCreationProgress ''a.jar'' 2 1 (Finite 200)),
      ExecCommand (command_of pack_mods (file_entry ''a.jar'')),
      ExecCommand (command_of pack_mods (file_entry ''a.jar'')),
      ExecCommand (command_of pack_mods (file_entry ''a.jar''))]"
  by code_simp

lemma pack_instancePath: "create_instancePath host_offline Minecraft ''Pack'' = Inr pack_path"
  by code_simp

lemma vanilla_pack_vanilla: "type' (loader vanilla_pack) = Vanilla"
  by (simp add: vanilla_pack_def)

text \<open>
  C6, the order observed. In the run of the vanilla pack on a host whose transfers
  all fail, the progress events and the transfer commands come in this order: the
  progress event of \<open>a.jar\<close> first, then the three transfer attempts for \<open>a.jar\<close>,
  then the transfer of the client jar. The progress event of the file precedes every
  one of its download attempts.
\<close>

theorem progress_after_attempts_counterexample:
  "filter is_progress_or_transfer
     (trace (snd (createMinecraftInstance host_offline vanilla_pack Minecraft False world0))) =
     [Dispatch (instanceCreationProgress ''a.jar'' 2 1 (Finite 200)),
      ExecCommand (command_of pack_mods (file_entry ''a.jar'')),
      ExecCommand (command_of pack_mods (file_entry ''a.jar'')),
      ExecCommand (command_of pack_mods (file_entry ''a.jar'')),
      ExecCommand (client_command vanilla_pack pack_path)]"
proof -
  obtain ip ks where r: "create_instancePath host_offline Minecraft (name vanilla_pack) = Inr ip"
    "transfers_always_fail host_offline \<longrightarrow> ks = replicate (totalFiles_of (files vanilla_pack)) 3"
    "filter is_progress_or_transfer
       (trace (snd (createMinecraftInstance host_offline vanilla_pack Minecraft False world0))) =
          filter is_progress_or_transfer (trace world0)
          @ types_order (path_join [ip, ''.minecraft'']) (totalFiles_of (files vanilla_pack)) fileTypes
              (files vanilla_pack) 0 ks
          @ (if type' (loader vanilla_pack) = Vanilla then [ExecCommand (client_command vanilla_pack ip)] else [])"
    using run_order [OF pack_run [OF name_vanilla_pack]] by blast
  have ip: "ip = pack_path"
    using r(1) pack_instancePath by (simp add: name_vanilla_pack)
  have ks: "ks = replicate 1 3"
    using r(2) offline_host vanilla_pack_total by simp
  show ?thesis
    unfolding r(3) ip ks vanilla_pack_total
    by (simp only: vanilla_pack_order trace_world0 vanilla_pack_vanilla) simp
qed

lemma wf_outcomes_range:
  "list_all wf_outcome ocs \<Longrightarrow> list_all (\<lambda>k. 1 \<le> k \<and> k \<le> 3) (map (\<lambda>oc. fst (snd oc)) ocs)"
  by (induction ocs) (auto simp add: wf_outcome_def)

lemma batch_order_of_downloadFiles:
  "\<exists>ks. length ks = length (non_index fls)
      \<and> list_all (\<lambda>k. 1 \<le> k \<and> k \<le> 3) ks
      \<and> fst (downloadFiles env fls t c tot w) = Inr ()
      \<and> filter is_progress_or_transfer (trace (snd (downloadFiles env fls t c tot w))) =
          filter is_progress_or_transfer (trace w) @ batch_order t tot fls c ks"
proof -
  obtain ocs w' where d: "downloadFiles env fls t c tot w = (Inr (), w')"
      "length ocs = length (non_index fls)" "list_all wf_outcome ocs"
      "trace w' = trace w @ batch_trace t tot fls c ocs @ summary_of (batch_failed fls ocs)"
    using downloadFiles_trace by blast
  show ?thesis
    using d(1,2) wf_outcomes_range [OF d(3)]
    by (intro exI [of _ "map (\<lambda>oc. fst (snd oc)) ocs"])
       (simp add: d(4) filter_batch_order filter_summary_order)
qed

text \<open>
  C6, as the code has it. A batch download never throws, and among the progress
  events and transfer commands it adds to the trace there is, for each file of the
  batch that is not an index marker and in the order of the batch, exactly one progress
  event followed by the transfer attempts of that file, between one and three of them
  (\<open>batch_order\<close>). Hence in every run that returns \<open>true\<close> the progress events
  and transfer commands are, category by category, one progress event per file that is
  not an index marker, each immediately before the attempts for its file
  (\<open>types_order\<close>), and then the client jar's transfer when the loader is vanilla.
\<close>

theorem progress_precedes_attempts:
  "(\<exists>ks. length ks = length (non_index fls)
      \<and> list_all (\<lambda>k. 1 \<le> k \<and> k \<le> 3) ks
      \<and> fst (downloadFiles env fls t c tot v) = Inr ()
      \<and> filter is_progress_or_transfer (trace (snd (downloadFiles env fls t c tot v))) =
          filter is_progress_or_transfer (trace v) @ batch_order t tot fls c ks)
   \<and> (createMinecraftInstance env d k force w = (Inr True, w') \<longrightarrow>
       (\<exists>ip ks. create_instancePath env k (name d) = Inr ip
          \<and> length ks = totalFiles_of (files d)
          \<and> list_all (\<lambda>k. 1 \<le> k \<and> k \<le> 3) ks
          \<and> filter is_progress_or_transfer (trace w') =
              filter is_progress_or_transfer (trace w)
              @ types_order (path_join [ip, ''.minecraft'']) (totalFiles_of (files d)) fileTypes (files d) 0 ks
              @ (if type' (loader d) = Vanilla then [ExecCommand (client_command d ip)] else [])))"
proof (intro conjI impI)
  show "\<exists>ks. length ks = length (non_index fls)
      \<and> list_all (\<lambda>k. 1 \<le> k \<and> k \<le> 3) ks
      \<and> fst (downloadFiles env fls t c tot v) = Inr ()
      \<and> filter is_progress_or_transfer (trace (snd (downloadFiles env fls t c tot v))) =
          filter is_progress_or_transfer (trace v) @ batch_order t tot fls c ks"
    by (rule batch_order_of_downloadFiles)
next
  assume "createMinecraftInstance env d k force w = (Inr True, w')"
  from run_order [OF this]
  show "\<exists>ip ks. create_instancePath env k (name d) = Inr ip
          \<and> length ks = totalFiles_of (files d)
          \<and> list_all (\<lambda>k. 1 \<le> k \<and> k \<le> 3) ks
          \<and> filter is_progress_or_transfer (trace w') =
              filter is_progress_or_transfer (trace w)
              @ types_order (path_join [ip, ''.minecraft'']) (totalFiles_of (files d)) fileTypes (files d) 0 ks
              @ (if type' (loader d) = Vanilla then [ExecCommand (client_command d ip)] else [])"
    by blast
qed

theorem progress_precedes_attempts_witness:
  "createMinecraftInstance host_offline vanilla_pack Minecraft False world0 =
     (Inr True, snd (createMinecraftInstance host_offline vanilla_pack Minecraft False world0))
   \<and> (\<exists>ks. length ks = 1
          \<and> list_all (\<lambda>k. 1 \<le> k \<and> k \<le> 3) ks
          \<and> filter is_progress_or_transfer
               (trace (snd (createMinecraftInstance host_offline vanilla_pack Minecraft False world0))) =
              types_order (path_join [pack_path, ''.minecraft'']) 1 fileTypes (files vanilla_pack) 0 ks
              @ [ExecCommand (client_command vanilla_pack pack_path)])"
proof -
  note run = pack_run [OF name_vanilla_pack]
  note law = progress_precedes_attempts
      [of "[]" host_offline "[]" 0 0 world0 vanilla_pack Minecraft False world0
          "snd (createMinecraftInstance host_offline vanilla_pack Minecraft False world0)",
       THEN conjunct2, THEN mp, OF run]
  then obtain ip ks where r: "create_instancePath host_offline Minecraft (name vanilla_pack) = Inr ip"
    "length ks = totalFiles_of (files vanilla_pack)"
    "list_all (\<lambda>k. 1 \<le> k \<and> k \<le> 3) ks"
    "filter is_progress_or_transfer
       (trace (snd (createMinecraftInstance host_offline vanilla_pack Minecraft False world0))) =
          filter is_progress_or_transfer (trace world0)
          @ types_order (path_join [ip, ''.minecraft'']) (totalFiles_of (files vanilla_pack)) fileTypes
              (files vanilla_pack) 0 ks
          @ (if type' (loader vanilla_pack) = Vanilla then [ExecCommand (client_command vanilla_pack ip)] else [])"
    by blast
  have ip: "ip = pack_path"
    using r(1) pack_instancePath by (simp add: name_vanilla_pack)
  show ?thesis
    using run r(2,3) r(4) [unfolded ip vanilla_pack_total trace_world0]
    by (intro conjI exI [of _ ks]) (simp_all add: vanilla_pack_total vanilla_pack_vanilla)
qed

lemma filter_attempts_failure: "filter is_failure (attempts_trace cmd a k) = []"
  by (induction cmd a k rule: attempts_trace.induct) simp_all

lemma filter_file_failure:
  "filter is_failure (file_trace t tot f c oc) = (if snd (snd oc) then [] else [failure_toast (filename f)])"
  by (cases oc)
     (simp add: file_trace_def retry_trace_def filter_attempts_failure progress_of_def failure_toast_def)

lemma filter_batch_failure:
  "filter is_failure (batch_trace t tot fls c ocs) = map failure_toast (batch_failed fls ocs)"
proof (induction fls arbitrary: c ocs)
  case Nil
  show ?case by simp
next
  case (Cons f0 rest)
  show ?case
  proof (cases "is_index f0")
    case True
    with Cons show ?thesis by simp
  next
    case False
    show ?thesis
    proof (cases ocs)
      case Nil
      with False show ?thesis by simp
    next
      case (Cons oc ocs')
      obtain made k ok where oc: "oc = (made, k, ok)"
        by (cases oc)
      from False Cons oc Cons.IH [of "c + 1" ocs'] show ?thesis
        by (simp add: filter_file_failure)
    qed
  qed
qed

lemma filter_summary_failure: "filter is_failure (summary_of failed) = []"
  by (simp add: summary_of_def)

lemma batch_failed_subseq: "subseq (batch_failed fls ocs) (map filename (non_index fls))"
proof (induction fls arbitrary: ocs)
  case Nil
  show ?case by (simp add: non_index_def)
next
  case (Cons f0 rest)
  show ?case
  proof (cases "is_index f0")
    case True
    with Cons show ?thesis by (simp add: non_index_Cons)
  next
    case False
    show ?thesis
    proof (cases ocs)
      case Nil
      with False show ?thesis by simp
    next
      case (Cons oc ocs')
      obtain made k ok where oc: "oc = (made, k, ok)"
        by (cases oc)
      from False Cons oc Cons.IH [of ocs'] show ?thesis
        by (cases ok) (auto simp add: non_index_Cons intro: list_emb_Cons)
    qed
  qed
qed

lemma length_failed_of:
  "wf_categories types fls cats \<Longrightarrow> length (failed_of types fls cats) = categories_with_entries types fls"
proof (induction types arbitrary: cats)
  case Nil
  show ?case by (simp add: categories_with_entries_def)
next
  case (Cons ty rest)
  obtain fileType member where ty: "ty = (fileType, member)"
    by (cases ty)
  show ?case
  proof (cases "member fls = []")
    case True
    with Cons ty show ?thesis by (simp add: categories_with_entries_def)
  next
    case False
    with Cons.prems ty obtain made ocs cats' where c: "cats = (made, ocs) # cats'"
      "wf_categories rest fls cats'"
      by (cases cats) auto
    with False ty Cons.IH [of cats'] show ?thesis
      by (simp add: categories_with_entries_def)
  qed
qed

lemma batch_summary_of_downloadFiles:
  "\<exists>failed. subseq failed (map filename (non_index fls))
      \<and> (transfers_always_fail env \<longrightarrow> failed = map filename (non_index fls))
      \<and> fst (downloadFiles env fls t c tot w) = Inr ()
      \<and> filter is_failure (trace (snd (downloadFiles env fls t c tot w))) =
          filter is_failure (trace w) @ map failure_toast failed
      \<and> filter is_summary (trace (snd (downloadFiles env fls t c tot w))) =
          filter is_summary (trace w) @ summary_of failed"
proof -
  obtain ocs w' where d: "downloadFiles env fls t c tot w = (Inr (), w')"
      "length ocs = length (non_index fls)" "list_all wf_outcome ocs"
      "trace w' = trace w @ batch_trace t tot fls c ocs @ summary_of (batch_failed fls ocs)"
      "transfers_always_fail env \<longrightarrow> all_failed ocs"
    using downloadFiles_trace by blast
  have off: "transfers_always_fail env \<longrightarrow> batch_failed fls ocs = map filename (non_index fls)"
    using d(5) all_failed_batch [OF d(2)] by blast
  show ?thesis
    using off
    by (intro exI [of _ "batch_failed fls ocs"])
       (simp add: d(1) d(4) batch_failed_subseq filter_batch_failure filter_summary_failure
         filter_batch_summary filter_summary_summary)
qed

lemma failed_per_category:
  assumes "createMinecraftInstance env d k force w = (Inr True, w')"
  shows "\<exists>faileds. length faileds = categories_with_entries fileTypes (files d)
      \<and> (transfers_always_fail env \<longrightarrow> faileds = all_files_of fileTypes (files d))
      \<and> filter is_summary (trace w') = filter is_summary (trace w) @ concat (map summary_of faileds)"
proof -
  obtain mc pr ip pre cats where s: "create_paths env k (name d) = Inr (mc, pr, ip)"
    "list_all is_fs_write pre" "wf_categories fileTypes (files d) cats"
    "transfers_always_fail env \<longrightarrow> all_categories_failed cats"
    "trace w' = trace w @ pre
              @ types_trace (path_join [ip, ''.minecraft'']) (totalFiles_of (files d)) fileTypes (files d) 0 cats
              @ (if type' (loader d) = Vanilla then [ExecCommand (client_command d ip)] else [])
              @ [Dispatch (instanceCreationComplete (name d) ip),
                 ToastSuccess (''Created '' @ [dq] @ name d @ [dq] @ '' instance!'')]"
    using run_shape [OF assms] by blast
  have off: "transfers_always_fail env \<longrightarrow> failed_of fileTypes (files d) cats = all_files_of fileTypes (files d)"
    using s(4) all_failed_categories [OF s(3)] by auto
  have tr: "filter is_summary (trace w') =
          filter is_summary (trace w) @ concat (map summary_of (failed_of fileTypes (files d) cats))"
    unfolding s(5)
    by (simp add: fs_write_views(3) [OF s(2)] filter_types_summary [OF s(3)])
  show ?thesis
    using off tr length_failed_of [OF s(3)]
    by (intro exI [of _ "failed_of fileTypes (files d) cats"]) simp
qed

lemma two_category_pack_files:
  "all_files_of fileTypes (files two_category_pack) = [[''a.jar''], [''b.cfg'']]"
  by code_simp

lemma two_category_pack_categories:
  "categories_with_entries fileTypes (files two_category_pack) = 2"
  by code_simp

lemma two_category_pack_summaries:
  "concat (map summary_of [[''a.jar''], [''b.cfg'']]) =
     [described ''Failed to download: a.jar'', described ''Failed to download: b.cfg'']"
  by (simp add: summary_of_def failure_summary_def described_def)

lemma summary_of_eq:
  "summary_of failed =
     (if failed = [] then []
      else [described (if length failed = 1 then ''Failed to download: '' @ hd failed
                       else ''Failed to download '' @ show_nat (length failed)
                              @ '' files. Check the console for details.'')])"
  by (simp add: summary_of_def failure_summary_def described_def)

text \<open>
  C8, the summaries observed. The run of a pack with one mod and one configuration
  file, on a host whose transfers all fail, returns \<open>true\<close> and shows two summaries,
  one for each category, each in the singular form, although two files failed in
  the run.
\<close>

theorem one_summary_per_install_counterexample:
  "fst (createMinecraftInstance host_offline two_category_pack Minecraft False world0) = Inr True
   \<and> filter is_summary (trace (snd (createMinecraftInstance host_offline two_category_pack Minecraft False world0))) =
       [described ''Failed to download: a.jar'', described ''Failed to download: b.cfg'']"
proof -
  note run = pack_run [OF name_two_category_pack]
  obtain failed where f: "transfers_always_fail host_offline \<longrightarrow> failed = all_files_of fileTypes (files two_category_pack)"
    "filter is_summary (trace (snd (createMinecraftInstance host_offline two_category_pack Minecraft False world0))) =
       filter is_summary (trace world0) @ concat (map summary_of failed)"
    using run_summaries [OF run] by blast
  have "failed = [[''a.jar''], [''b.cfg'']]"
    using f(1) offline_host two_category_pack_files by simp
  with f(2) have s: "filter is_summary (trace (snd (createMinecraftInstance host_offline two_category_pack Minecraft False world0))) =
       [described ''Failed to download: a.jar'', described ''Failed to download: b.cfg'']"
    by (simp only: two_category_pack_summaries trace_world0 filter.simps append_Nil)
  have r: "fst (createMinecraftInstance host_offline two_category_pack Minecraft False world0) = Inr True"
    using arg_cong [OF run, of fst] by simp
  show ?thesis
    using r s by (rule conjI)
qed

text \<open>
  C8, as the code has it. \<open>downloadFiles\<close> returns no value and never throws. The
  files it records as failed are a subsequence of the batch's files that are not index
  markers (all of them when every transfer fails): they are the files for which
  \<open>downloadWithRetry\<close> showed its failure toast, in that order. The batch itself
  shows the summary for them: none when no file failed, the singular message when
  exactly one file of the batch failed, the message with the count otherwise. A run
  that returns \<open>true\<close> therefore shows the summaries of its categories one after
  the other, one list of failed files per category with entries, and nothing is
  aggregated across categories. Whether the run returns \<open>true\<close> is decided by the
  configuration step alone, so failed downloads do not fail the install.
\<close>

theorem summary_per_batch:
  "(\<exists>failed. subseq failed (map filename (non_index fls))
      \<and> (transfers_always_fail env \<longrightarrow> failed = map filename (non_index fls))
      \<and> fst (downloadFiles env fls t c tot v) = Inr ()
      \<and> filter is_failure (trace (snd (downloadFiles env fls t c tot v))) =
          filter is_failure (trace v) @ map failure_toast failed
      \<and> filter is_summary (trace (snd (downloadFiles env fls t c tot v))) =
          filter is_summary (trace v) @ summary_of failed)
   \<and> summary_of failedDownloads =
       (if failedDownloads = [] then []
        else [described (if length failedDownloads = 1 then ''Failed to download: '' @ hd failedDownloads
                         else ''Failed to download '' @ show_nat (length failedDownloads)
                                @ '' files. Check the console for details.'')])
   \<and> (createMinecraftInstance env d k force w = (Inr True, w') \<longrightarrow>
        (\<exists>faileds. length faileds = categories_with_entries fileTypes (files d)
           \<and> (transfers_always_fail env \<longrightarrow> faileds = all_files_of fileTypes (files d))
           \<and> filter is_summary (trace w') = filter is_summary (trace w) @ concat (map summary_of faileds)))
   \<and> fst (install_instance env d k mc pr ip u) =
       (case fst (write_configuration env d k mc pr ip (prepared ip u)) of
          Inl e \<Rightarrow> Inl e
        | Inr x \<Rightarrow> Inr True)"
  using batch_summary_of_downloadFiles [of fls env t c tot v] summary_of_eq [of failedDownloads]
    failed_per_category [of env d k force w w'] install_instance_result [of env d k mc pr ip u]
  by blast

theorem summary_per_batch_witness:
  "createMinecraftInstance host_offline two_category_pack Minecraft False world0 =
     (Inr True, snd (createMinecraftInstance host_offline two_category_pack Minecraft False world0))
   \<and> transfers_always_fail host_offline
   \<and> (\<exists>faileds. length faileds = 2
         \<and> faileds = [[''a.jar''], [''b.cfg'']]
         \<and> filter is_summary (trace (snd (createMinecraftInstance host_offline two_category_pack Minecraft False world0))) =
             concat (map summary_of faileds))"
proof -
  note run = pack_run [OF name_two_category_pack]
  note law = summary_per_batch
      [of "[]" host_offline "[]" 0 0 world0 "[]" two_category_pack Minecraft False world0
          "snd (createMinecraftInstance host_offline two_category_pack Minecraft False world0)" "[]" "[]" "[]" world0,
       THEN conjunct2, THEN conjunct2, THEN conjunct1, THEN mp, OF run]
  then obtain faileds where r:
    "length faileds = categories_with_entries fileTypes (files two_category_pack)"
    "transfers_always_fail host_offline \<longrightarrow> faileds = all_files_of fileTypes (files two_category_pack)"
    "filter is_summary (trace (snd (createMinecraftInstance host_offline two_category_pack Minecraft False world0))) =
       filter is_summary (trace world0) @ concat (map summary_of faileds)"
    by blast
  have f: "faileds = [[''a.jar''], [''b.cfg'']]"
    using r(2) offline_host two_category_pack_files by simp
  show ?thesis
    using run offline_host f r(3)
    by (intro conjI exI [of _ faileds]) (simp_all add: trace_world0)
qed

section \<open>The client jar\<close>

lemma download_instance_files_vanilla:
  assumes "type' (loader d) = Vanilla"
  shows "download_instance_files env d ip u =
          (Inr (), after_exec env (client_command d ip)
                     (snd (download_fileTypes env fileTypes (files d) (path_join [ip, ''.minecraft'']) 0
                             (totalFiles_of (files d)) u)))"
proof -
  obtain cats w1 where t: "download_fileTypes env fileTypes (files d) (path_join [ip, ''.minecraft'']) 0 (totalFiles_of (files d)) u = (Inr (), w1)"
    using download_fileTypes_trace by blast
  with assms show ?thesis
    by (simp add: download_instance_files_def Let_def bnd_apply downloadMinecraftFiles_eq client_command_def)
qed

lemma install_instance_vanilla:
  assumes "type' (loader d) = Vanilla"
    and "write_configuration env d k mc pr ip (prepared ip u) = (Inr (), w1)"
  shows "install_instance env d k mc pr ip u =
          (Inr True,
           logged (ToastSuccess (''Created '' @ [dq] @ name d @ [dq] @ '' instance!''))
             (logged (Dispatch (instanceCreationComplete (name d) ip))
                (after_exec env (client_command d ip)
                   (snd (download_fileTypes env fileTypes (files d) (path_join [ip, ''.minecraft'']) 0
                           (totalFiles_of (files d)) w1)))))"
  using assms(2) download_instance_files_vanilla [OF assms(1), of env ip w1]
  by (simp add: install_instance_def bnd_apply prepare_directories_prepared complete_instance_eq)

lemma run_ends_with_client_jar:
  assumes "type' (loader d) = Vanilla"
    and "createMinecraftInstance env d k force w = (Inr True, w')"
  shows "\<exists>ip xs. create_instancePath env k (name d) = Inr ip
      \<and> trace w' = trace w @ xs
          @ [ExecCommand (client_command d ip),
             Dispatch (instanceCreationComplete (name d) ip),
             ToastSuccess (''Created '' @ [dq] @ name d @ [dq] @ '' instance!'')]"
proof -
  obtain mc pr ip pre cats where s: "create_paths env k (name d) = Inr (mc, pr, ip)"
    "trace w' = trace w @ pre
              @ types_trace (path_join [ip, ''.minecraft'']) (totalFiles_of (files d)) fileTypes (files d) 0 cats
              @ (if type' (loader d) = Vanilla then [ExecCommand (client_command d ip)] else [])
              @ [Dispatch (instanceCreationComplete (name d) ip),
                 ToastSuccess (''Created '' @ [dq] @ name d @ [dq] @ '' instance!'')]"
    using run_shape [OF assms(2)] by blast
  show ?thesis
    using s assms(1)
    by (intro exI [of _ ip]
          exI [of _ "pre @ types_trace (path_join [ip, ''.minecraft'']) (totalFiles_of (files d)) fileTypes (files d) 0 cats"])
       (simp add: create_instancePath_def)
qed

text \<open>
  C9. The client jar of a vanilla instance. \<open>downloadMinecraftFiles\<close> runs one
  transfer command and returns; whatever the command's exit status and whatever it
  left on the filesystem, the result is the same and the world is the one after that
  single command, with no wait and no second attempt. For a vanilla loader the
  download phase ends with that one command and never throws; when the configuration
  step succeeded, the installation returns \<open>true\<close> in the world reached by the
  client jar's command followed by the completion event and the success toast; and
  the trace of every run that returns \<open>true\<close> ends with the client jar's command,
  the completion event and the success toast.
\<close>

theorem client_jar_single_unchecked_transfer:
  "downloadMinecraftFiles env urls dir v =
     (Inr (), after_exec env (''curl -X GET -L -o '' @ [dq] @ path_join [dir, ''client.jar''] @ [dq]
                                @ '' '' @ [dq] @ client_jar urls @ [dq]) v)
   \<and> trace (after_exec env cmd v) = trace v @ [ExecCommand cmd]
   \<and> (type' (loader d) = Vanilla \<longrightarrow>
        download_instance_files env d ip u =
          (Inr (), after_exec env (client_command d ip)
                     (snd (download_fileTypes env fileTypes (files d) (path_join [ip, ''.minecraft'']) 0
                             (totalFiles_of (files d)) u))))
   \<and> (type' (loader d) = Vanilla \<and> write_configuration env d k mc pr ip (prepared ip u) = (Inr (), w1) \<longrightarrow>
        install_instance env d k mc pr ip u =
          (Inr True,
           logged (ToastSuccess (''Created '' @ [dq] @ name d @ [dq] @ '' instance!''))
             (logged (Dispatch (instanceCreationComplete (name d) ip))
                (after_exec env (client_command d ip)
                   (snd (download_fileTypes env fileTypes (files d) (path_join [ip, ''.minecraft'']) 0
                           (totalFiles_of (files d)) w1))))))
   \<and> (type' (loader d) = Vanilla \<and> createMinecraftInstance env d k force w = (Inr True, w') \<longrightarrow>
        (\<exists>ip' xs. create_instancePath env k (name d) = Inr ip'
           \<and> trace w' = trace w @ xs
               @ [ExecCommand (client_command d ip'),
                  Dispatch (instanceCreationComplete (name d) ip'),
                  ToastSuccess (''Created '' @ [dq] @ name d @ [dq] @ '' instance!'')]))"
  using downloadMinecraftFiles_eq [of env urls dir v] trace_after_exec [of env cmd v]
    download_instance_files_vanilla [of d env ip u] install_instance_vanilla [of d env k mc pr ip u w1]
    run_ends_with_client_jar [of d env k force w w']
  by blast

theorem client_jar_single_unchecked_transfer_witness:
  "type' (loader vanilla_pack) = Vanilla
   \<and> transfers_always_fail host_offline
   \<and> createMinecraftInstance host_offline vanilla_pack Minecraft False world0 =
       (Inr True, snd (createMinecraftInstance host_offline vanilla_pack Minecraft False world0))
   \<and> (\<exists>xs. trace (snd (createMinecraftInstance host_offline vanilla_pack Minecraft False world0)) =
         xs @ [ExecCommand (client_command vanilla_pack pack_path),
               Dispatch (instanceCreationComplete ''Pack'' pack_path),
               ToastSuccess (''Created '' @ [dq] @ ''Pack'' @ [dq] @ '' instance!'')])"
proof -
  note run = pack_run [OF name_vanilla_pack]
  note law = client_jar_single_unchecked_transfer
      [of host_offline "download_urls vanilla_pack" "[]" world0 "[]" vanilla_pack "[]" world0
          Minecraft "[]" "[]" world0 False world0
          "snd (createMinecraftInstance host_offline vanilla_pack Minecraft False world0)",
       THEN conjunct2, THEN conjunct2, THEN conjunct2, THEN conjunct2, THEN mp,
       OF conjI [OF vanilla_pack_vanilla run]]
  then obtain ip xs where r: "create_instancePath host_offline Minecraft (name vanilla_pack) = Inr ip"
    "trace (snd (createMinecraftInstance host_offline vanilla_pack Minecraft False world0)) =
       trace world0 @ xs
       @ [ExecCommand (client_command vanilla_pack ip),
          Dispatch (instanceCreationComplete (name vanilla_pack) ip),
          ToastSuccess (''Created '' @ [dq] @ name vanilla_pack @ [dq] @ '' instance!'')]"
    by blast
  have ip: "ip = pack_path"
    using r(1) pack_instancePath by (simp add: name_vanilla_pack)
  show ?thesis
    using run vanilla_pack_vanilla offline_host r(2) [unfolded ip name_vanilla_pack trace_world0]
    by (intro conjI exI [of _ xs]) simp_all
qed

section \<open>The profile store after an installation\<close>

lemma fs_after_exec: "transfers_keep env q \<Longrightarrow> fs (after_exec env cmd w) q = fs w q"
  by (simp add: after_exec_def transfers_keep_def)

lemma fs_logged: "fs (logged e w) = fs w"
  by (simp add: logged_def)

lemma downloadWithRetry_keeps:
  assumes "transfers_keep env q"
  shows "fs (snd (downloadWithRetry env cmd p f 3 w)) q = fs w q"
  by (cases rule: retry3_cases [of env cmd p f w])
     (simp_all add: fs_after_exec [OF assms] fs_logged)

lemma downloadFiles_loop_keeps:
  assumes "transfers_keep env q"
  shows "fs w q = Some x \<Longrightarrow> fs (snd (downloadFiles_loop env fls t c tot failed w)) q = Some x"
proof (induction fls arbitrary: c failed w)
  case Nil
  then show ?case by (simp add: ret_apply)
next
  case (Cons f0 rest)
  show ?case
  proof (cases "is_index f0")
    case True
    with Cons show ?thesis by simp
  next
    case False
    define fullPath where "fullPath = path_join [t, filename f0]"
    define dirPath where "dirPath = path_dirname fullPath"
    define w1 where "w1 = (if fs w dirPath = None then (logged (CreateDirectory dirPath) w)\<lparr>fs := (fs w)(dirPath \<mapsto> Directory)\<rparr> else w)"
    define w2 where "w2 = logged (progress_of f0 c tot) w1"
    obtain k ok w3 where r:
      "downloadWithRetry env (curl_file fullPath (download_url f0)) fullPath (filename f0) 3 w2 = (Inr ok, w3)"
      using downloadWithRetry_trace by blast
    have unfolded: "downloadFiles_loop env (f0 # rest) t c tot failed w =
        (case downloadWithRetry env (curl_file fullPath (download_url f0)) fullPath (filename f0) 3 w2 of
           (Inl e, w') \<Rightarrow> (Inl e, w')
         | (Inr success, w') \<Rightarrow>
             downloadFiles_loop env rest t (Suc c) tot
               (if \<not> success then failed @ [filename f0] else failed) w')"
      using False
      by (cases "fs w dirPath")
         (simp_all add: Let_def pathExists_eq bnd_apply createDirectory_eq ret_apply perform_eq
          fullPath_def [symmetric] dirPath_def [symmetric] w1_def w2_def progress_of_def)
    have "fs w1 q = Some x"
      using Cons.prems by (auto simp add: w1_def fs_logged)
    then have "fs w2 q = Some x"
      by (simp add: w2_def fs_logged)
    then have "fs w3 q = Some x"
      using downloadWithRetry_keeps [OF assms, of "curl_file fullPath (download_url f0)" fullPath "filename f0" w2] r
      by simp
    from Cons.IH [OF this] show ?thesis
      unfolding unfolded r by simp
  qed
qed

lemma downloadFiles_keeps:
  assumes "transfers_keep env q" and "fs w q = Some x"
  shows "fs (snd (downloadFiles env fls t c tot w)) q = Some x"
proof (cases "downloadFiles_loop env fls t c tot [] w")
  case (Pair r w1)
  have "fs w1 q = Some x"
    using downloadFiles_loop_keeps [OF assms, of fls t c tot "[]"] Pair by simp
  with Pair show ?thesis
    by (cases r) (simp_all add: downloadFiles_def bnd_apply perform_eq ret_apply fs_logged)
qed

lemma download_fileTypes_keeps:
  assumes "transfers_keep env q"
  shows "fs w q = Some x \<Longrightarrow> fs (snd (download_fileTypes env types fls dir c tot w)) q = Some x"
proof (induction types arbitrary: c w)
  case Nil
  then show ?case by (simp add: ret_apply)
next
  case (Cons ty rest)
  obtain fileType member where ty: "ty = (fileType, member)"
    by (cases ty)
  show ?case
  proof (cases "member fls = []")
    case True
    with Cons ty show ?thesis by simp
  next
    case False
    define targetPath where "targetPath = path_join [dir, fileType]"
    define w1 where "w1 = (if fs w targetPath = None then (logged (CreateDirectory targetPath) w)\<lparr>fs := (fs w)(targetPath \<mapsto> Directory)\<rparr> else w)"
    obtain w2 where d: "downloadFiles env (member fls) targetPath c tot w1 = (Inr (), w2)"
      using downloadFiles_trace by blast
    have unfolded: "download_fileTypes env (ty # rest) fls dir c tot w =
        (case downloadFiles env (member fls) targetPath c tot w1 of
           (Inl e, v) \<Rightarrow> (Inl e, v)
         | (Inr u, v) \<Rightarrow> download_fileTypes env rest fls dir (c + length (filter (\<lambda>f. \<not> is_index f) (member fls))) tot v)"
      using False ty
      by (cases "fs w targetPath")
         (simp_all add: Let_def pathExists_eq bnd_apply createDirectory_eq ret_apply
          targetPath_def [symmetric] w1_def)
    have "fs w1 q = Some x"
      using Cons.prems by (auto simp add: w1_def fs_logged)
    then have "fs w2 q = Some x"
      using downloadFiles_keeps [OF assms, of w1 x "member fls" targetPath c tot] d by simp
    from Cons.IH [OF this] show ?thesis
      unfolding unfolded d by simp
  qed
qed

lemma download_instance_files_keeps:
  assumes "transfers_keep env q" and "fs w q = Some x"
  shows "fs (snd (download_instance_files env d ip w)) q = Some x"
proof -
  obtain cats w1 where t: "download_fileTypes env fileTypes (files d) (path_join [ip, ''.minecraft'']) 0 (totalFiles_of (files d)) w = (Inr (), w1)"
    using download_fileTypes_trace by blast
  have "fs w1 q = Some x"
    using download_fileTypes_keeps [OF assms, of fileTypes "files d" "path_join [ip, ''.minecraft'']" 0 "totalFiles_of (files d)"] t
    by simp
  with t show ?thesis
    by (simp add: download_instance_files_def Let_def bnd_apply downloadMinecraftFiles_eq ret_apply
        fs_after_exec [OF assms(1)])
qed

lemma dates_prepared: "dates (prepared ip w) = dates w"
  by (simp add: prepared_def prepare_directories_def bnd_apply pathExists_eq createDirectory_eq ret_apply logged_def)

lemma initial_store_cong: "fs w pp = fs v pp \<Longrightarrow> initial_store (fs w) pp = initial_store (fs v) pp"
  by (simp add: initial_store_def)

lemma initial_store_written: "fs w pp = Some (RegularFile (Json store)) \<Longrightarrow> initial_store (fs w) pp = Inr store"
  by (simp add: initial_store_def)

text \<open>The store after an installation for the generic launcher.\<close>

lemma install_store:
  assumes keep: "transfers_keep env (profiles_path mc)"
    and apart: "profiles_path mc \<noteq> ip" "profiles_path mc \<noteq> path_join [ip, ''.minecraft'']"
      "profiles_path mc \<noteq> path_join [ip, ''instance.json'']"
    and store: "initial_store (fs u) (profiles_path mc) = Inr (JObj members)"
      "map_of members ''profiles'' = Some (JObj entries)"
    and icon: "getBase64FromImageUrl env = Inr icon"
  shows "fst (install_instance env d Minecraft mc pr ip u) = Inr True
     \<and> initial_store (fs (snd (install_instance env d Minecraft mc pr ip u))) (profiles_path mc) =
         Inr (JObj (AList.update ''profiles''
                (JObj (AList.update (profileId_of (name d))
                   (launcher_profile (toISOString env (dates u)) icon (name d) (toISOString env (Suc (dates u))) ip
                      (Some (''-Xmx'' @ recommended_memory (java d))))
                   entries))
                members))"
proof -
  define pp where "pp = profiles_path mc"
  define wa where "wa = wrote (path_join [ip, ''instance.json'']) (Json (JObj (instanceConfig_of d))) (prepared ip u)"
  define store' where "store' = JObj (AList.update ''profiles''
                (JObj (AList.update (profileId_of (name d))
                   (launcher_profile (toISOString env (dates u)) icon (name d) (toISOString env (Suc (dates u))) ip
                      (Some (''-Xmx'' @ recommended_memory (java d))))
                   entries))
                members)"
  have fa: "fs wa pp = fs u pp"
    using apart by (simp add: wa_def wrote_def fs_prepared pp_def)
  have da: "dates wa = dates u"
    by (simp add: wa_def wrote_def dates_prepared)
  have sa: "initial_store (fs wa) pp = Inr (JObj members)"
    using initial_store_cong [OF fa] store(1) by (simp add: pp_def)
  have up: "upsert_profile (JObj members) (profileId_of (name d))
              (launcher_profile (toISOString env (dates u)) icon (name d) (toISOString env (Suc (dates u))) ip
                      (Some (''-Xmx'' @ recommended_memory (java d)))) = Inr store'"
    using store(2) by (simp add: upsert_profile_def store'_def)
  obtain wb where cfg: "write_configuration env d Minecraft mc pr ip (prepared ip u) = (Inr (), wb)"
    and fb: "fs wb pp = Some (RegularFile (Json store'))"
    using sa icon up
    by (simp add: write_configuration_minecraft wa_def [symmetric] updateLauncherProfiles_eq
        pp_def [symmetric] da)
  obtain cats wc where dl: "download_instance_files env d ip wb = (Inr (), wc)"
    using download_instance_files_trace by blast
  have fc: "fs wc pp = Some (RegularFile (Json store'))"
    using download_instance_files_keeps [OF keep, of wb _ d ip] fb dl by (simp add: pp_def)
  have res: "install_instance env d Minecraft mc pr ip u =
      (Inr True, logged (ToastSuccess (''Created '' @ [dq] @ name d @ [dq] @ '' instance!''))
                  (logged (Dispatch (instanceCreationComplete (name d) ip)) wc))"
    using cfg dl
    by (simp add: install_instance_def bnd_apply prepare_directories_prepared complete_instance_eq)
  show ?thesis
    unfolding res using initial_store_written [of wc pp store'] fc
    by (simp add: fs_logged initial_store_def pp_def store'_def)
qed

lemma run_store_general:
  assumes paths: "create_paths env Minecraft (name d) = Inr (mc, pr, ip)"
    and keep: "transfers_keep env (profiles_path mc)"
    and apart: "profiles_path mc \<noteq> ip" "profiles_path mc \<noteq> path_join [ip, ''.minecraft'']"
      "profiles_path mc \<noteq> path_join [ip, ''instance.json'']"
    and store: "initial_store (fs (if fs w ip \<noteq> None then removed ip w else w)) (profiles_path mc) = Inr (JObj members)"
      "map_of members ''profiles'' = Some (JObj entries)"
    and icon: "getBase64FromImageUrl env = Inr icon"
    and free: "fs w ip = None \<or> force"
  shows "fst (createMinecraftInstance env d Minecraft force w) = Inr True
     \<and> initial_store (fs (snd (createMinecraftInstance env d Minecraft force w))) (profiles_path mc) =
         Inr (JObj (AList.update ''profiles''
                (JObj (AList.update (profileId_of (name d))
                   (launcher_profile (toISOString env (dates w)) icon (name d) (toISOString env (Suc (dates w))) ip
                      (Some (''-Xmx'' @ recommended_memory (java d))))
                   entries))
                members))"
proof -
  define w0 where "w0 = (if fs w ip \<noteq> None then removed ip w else w)"
  have d0: "dates w0 = dates w"
    by (simp add: w0_def removed_def)
  have s0: "initial_store (fs w0) (profiles_path mc) = Inr (JObj members)"
    using store(1) by (simp add: w0_def)
  note inst = install_store [OF keep apart s0 store(2) icon, of d pr, unfolded d0]
  have run: "createMinecraftInstance env d Minecraft force w =
      (case install_instance env d Minecraft mc pr ip w0 of
         (Inl e, w') \<Rightarrow> (Inl e, logged (Dispatch (instanceCreationError e)) w')
       | (Inr b, w') \<Rightarrow> (Inr b, w'))"
  proof (cases "fs w ip = None")
    case True
    then show ?thesis
      unfolding createMinecraftInstance_eq paths by (simp add: w0_def)
  next
    case False
    with free have "force" by simp
    with False show ?thesis
      unfolding createMinecraftInstance_eq paths by (simp add: w0_def)
  qed
  show ?thesis
    using inst unfolding run
    by (cases "install_instance env d Minecraft mc pr ip w0") (auto split: sum.splits)
qed

lemma run_store:
  assumes paths: "create_paths env Minecraft (name d) = Inr (mc, pr, ip)"
    and keep: "transfers_keep env (profiles_path mc)"
    and apart: "\<not> within_tree ip (profiles_path mc)" "profiles_path mc \<noteq> path_join [ip, ''.minecraft'']"
      "profiles_path mc \<noteq> path_join [ip, ''instance.json'']"
    and store: "initial_store (fs w) (profiles_path mc) = Inr (JObj members)"
      "map_of members ''profiles'' = Some (JObj entries)"
    and icon: "getBase64FromImageUrl env = Inr icon"
    and free: "fs w ip = None \<or> force"
  shows "fst (createMinecraftInstance env d Minecraft force w) = Inr True
     \<and> initial_store (fs (snd (createMinecraftInstance env d Minecraft force w))) (profiles_path mc) =
         Inr (JObj (AList.update ''profiles''
                (JObj (AList.update (profileId_of (name d))
                   (launcher_profile (toISOString env (dates w)) icon (name d) (toISOString env (Suc (dates w))) ip
                      (Some (''-Xmx'' @ recommended_memory (java d))))
                   entries))
                members))"
proof -
  have ne: "profiles_path mc \<noteq> ip"
    using apart(1) by (auto simp add: within_tree_def)
  have s0: "initial_store (fs (if fs w ip \<noteq> None then removed ip w else w)) (profiles_path mc) = Inr (JObj members)"
    using store(1) apart(1) by (simp add: initial_store_def removed_def)
  show ?thesis
    by (rule run_store_general [OF paths keep ne apart(2,3) s0 store(2) icon free])
qed




section \<open>The instance path\<close>

lemma conflict_at:
  assumes "create_paths env k (name d) = Inr (mc, pr, ip)"
  shows "createMinecraftInstance env d k False (existing ip) = (Inr False, existing ip)"
  unfolding createMinecraftInstance_eq assms by (simp add: existing_def)

lemma windows_minecraft_paths:
  "create_paths host_windows Minecraft ''Pack'' =
     Inr (''C:/Users/u/AppData/Roaming/.minecraft'', [], ''C:/Users/u/AppData/Roaming/.minecraft/instances/Pack'')"
  by code_simp

lemma windows_prism_paths:
  "create_paths host_windows Prism ''Pack'' =
     Inr (''C:/Users/u/AppData/Roaming/.minecraft'', ''C:/Users/u/AppData/Roaming/PrismLauncher'',
          ''C:/Users/u/AppData/Roaming/PrismLauncher/instances/Pack'')"
  by code_simp

lemma windows_no_home_paths:
  "create_paths host_windows_no_home Minecraft ''Pack'' =
     Inr (''AppData/Roaming/.minecraft'', [], ''AppData/Roaming/.minecraft/instances/Pack'')"
  by code_simp

lemma macos_minecraft_paths:
  "create_paths host_macos Minecraft ''Pack'' =
     Inr (''/Users/u/Library/Application Support/minecraft'', [],
          ''/Users/u/Library/Application Support/minecraft/instances/Pack'')"
  by code_simp

lemma macos_prism_paths:
  "create_paths host_macos Prism ''Pack'' =
     Inr (''/Users/u/Library/Application Support/minecraft'', ''/Users/u/Library/Application Support/PrismLauncher'',
          ''/Users/u/Library/Application Support/PrismLauncher/instances/Pack'')"
  by code_simp

lemma linux_prism_paths:
  "create_paths host_offline Prism ''Pack'' =
     Inr (''/home/u/.minecraft'', ''/home/u/.local/share/PrismLauncher'',
          ''/home/u/.local/share/PrismLauncher/instances/Pack'')"
  by code_simp

lemma freebsd_minecraft_paths: "create_paths host_freebsd Minecraft ''Pack'' = Inl unsupported_os"
  by code_simp

lemma freebsd_prism_paths: "create_paths host_freebsd Prism ''Pack'' = Inl unsupported_os"
  by code_simp

lemma windows_appdata: "getEnv host_windows ''APPDATA'' = ''D:/Roaming/u''"
  by code_simp

lemma windows_table_minecraft:
  "instance_instancePath host_windows Minecraft ''Pack'' = Inr ''D:/Roaming/u/.minecraft/instances/Pack''"
  by code_simp

lemma windows_table_prism:
  "instance_instancePath host_windows Prism ''Pack'' = Inr ''D:/Roaming/u/PrismLauncher/instances/Pack''"
  by code_simp

lemma unsupported_run:
  assumes "create_paths env k (name d) = Inl e"
  shows "createMinecraftInstance env d k force w = (Inl e, logged (Dispatch (instanceCreationError e)) w)"
  unfolding createMinecraftInstance_eq assms by simp

text \<open>
  C4. The instance path that \<open>createMinecraftInstance\<close> of \<open>create.ts\<close> computes,
  read off the place where a call with \<open>forceInstallation = false\<close> finds an
  existing instance and returns \<open>false\<close>. On a Windows host whose \<open>HOME\<close> is
  \<open>C:/Users/u\<close> and whose \<open>APPDATA\<close> is \<open>D:/Roaming/u\<close> the path is built from
  \<open>HOME\<close>: \<open>C:/Users/u/AppData/Roaming/.minecraft/instances/Pack\<close> for the
  generic launcher and \<open>C:/Users/u/AppData/Roaming/PrismLauncher/instances/Pack\<close>
  for the third-party one, where the path resolvers of \<open>instance.ts\<close>, which take
  the base path from \<open>APPDATA\<close>, give \<open>D:/Roaming/u/.minecraft/instances/Pack\<close>
  and \<open>D:/Roaming/u/PrismLauncher/instances/Pack\<close>. On a Windows host without
  \<open>HOME\<close> the path is the relative \<open>AppData/Roaming/.minecraft/instances/Pack\<close>.
  On macOS and Linux the paths are \<open>Library/Application Support/minecraft\<close>,
  \<open>Library/Application Support/PrismLauncher\<close>, \<open>.minecraft\<close> and
  \<open>.local/share/PrismLauncher\<close> below the home directory, followed by
  \<open>instances/Pack\<close>. On any other system the call, for either launcher, reports
  and throws the error \<open>Unsupported operating system\<close> and does nothing else.
\<close>

theorem windows_base_path_from_home:
  "createMinecraftInstance host_windows vanilla_pack Minecraft False
      (existing ''C:/Users/u/AppData/Roaming/.minecraft/instances/Pack'') =
     (Inr False, existing ''C:/Users/u/AppData/Roaming/.minecraft/instances/Pack'')
   \<and> createMinecraftInstance host_windows vanilla_pack Prism False
      (existing ''C:/Users/u/AppData/Roaming/PrismLauncher/instances/Pack'') =
     (Inr False, existing ''C:/Users/u/AppData/Roaming/PrismLauncher/instances/Pack'')
   \<and> getEnv host_windows ''APPDATA'' = ''D:/Roaming/u''
   \<and> instance_instancePath host_windows Minecraft ''Pack'' = Inr ''D:/Roaming/u/.minecraft/instances/Pack''
   \<and> instance_instancePath host_windows Prism ''Pack'' = Inr ''D:/Roaming/u/PrismLauncher/instances/Pack''
   \<and> create_instancePath host_windows Minecraft ''Pack'' = Inr ''C:/Users/u/AppData/Roaming/.minecraft/instances/Pack''
   \<and> create_instancePath host_windows Prism ''Pack'' = Inr ''C:/Users/u/AppData/Roaming/PrismLauncher/instances/Pack''
   \<and> createMinecraftInstance host_windows_no_home vanilla_pack Minecraft False
      (existing ''AppData/Roaming/.minecraft/instances/Pack'') =
     (Inr False, existing ''AppData/Roaming/.minecraft/instances/Pack'')
   \<and> createMinecraftInstance host_macos vanilla_pack Minecraft False
      (existing ''/Users/u/Library/Application Support/minecraft/instances/Pack'') =
     (Inr False, existing ''/Users/u/Library/Application Support/minecraft/instances/Pack'')
   \<and> createMinecraftInstance host_macos vanilla_pack Prism False
      (existing ''/Users/u/Library/Application Support/PrismLauncher/instances/Pack'') =
     (Inr False, existing ''/Users/u/Library/Application Support/PrismLauncher/instances/Pack'')
   \<and> createMinecraftInstance host_offline vanilla_pack Minecraft False
      (existing ''/home/u/.minecraft/instances/Pack'') =
     (Inr False, existing ''/home/u/.minecraft/instances/Pack'')
   \<and> createMinecraftInstance host_offline vanilla_pack Prism False
      (existing ''/home/u/.local/share/PrismLauncher/instances/Pack'') =
     (Inr False, existing ''/home/u/.local/share/PrismLauncher/instances/Pack'')
   \<and> createMinecraftInstance host_freebsd vanilla_pack Minecraft False world0 =
       (Inl unsupported_os, logged (Dispatch (instanceCreationError unsupported_os)) world0)
   \<and> createMinecraftInstance host_freebsd vanilla_pack Prism False world0 =
       (Inl unsupported_os, logged (Dispatch (instanceCreationError unsupported_os)) world0)"
proof -
  note at = conflict_at [of _ _ vanilla_pack, unfolded name_vanilla_pack]
  note un = unsupported_run [of _ _ vanilla_pack, unfolded name_vanilla_pack]
  have wm: "create_instancePath host_windows Minecraft ''Pack'' = Inr ''C:/Users/u/AppData/Roaming/.minecraft/instances/Pack''"
    by (simp add: create_instancePath_def windows_minecraft_paths)
  have wp: "create_instancePath host_windows Prism ''Pack'' = Inr ''C:/Users/u/AppData/Roaming/PrismLauncher/instances/Pack''"
    by (simp add: create_instancePath_def windows_prism_paths)
  show ?thesis
    by (intro conjI at [OF windows_minecraft_paths] at [OF windows_prism_paths] windows_appdata
        windows_table_minecraft windows_table_prism wm wp at [OF windows_no_home_paths]
        at [OF macos_minecraft_paths] at [OF macos_prism_paths] at [OF pack_paths] at [OF linux_prism_paths]
        un [OF freebsd_minecraft_paths] un [OF freebsd_prism_paths])
qed

section \<open>The stored profile\<close>

lemma offline_keeps: "transfers_keep host_offline q"
  by (simp add: transfers_keep_def host_offline_def)

lemma pack_store_outside: "\<not> within_tree ''/home/u/.minecraft/instances/Pack'' (profiles_path ''/home/u/.minecraft'')"
  by code_simp

lemma pack_store_not_game_dir:
  "profiles_path ''/home/u/.minecraft'' \<noteq> path_join [''/home/u/.minecraft/instances/Pack'', ''.minecraft'']"
  by (simp add: pack_profiles_path pack_game_dir)

lemma fresh_store:
  "initial_store (fs world0) pp = Inr (JObj [(''profiles'', JObj []), (''settings'', JObj []), (''version'', JNum 3)])"
  by (simp add: initial_store_def world0_def empty_profiles_def)

lemma pack_profileId: "profileId_of ''Pack'' = ''communivents_pack''"
  by code_simp

lemma pack_mod_command:
  "command_of pack_mods (file_entry ''a.jar'') =
     curl_file ''/home/u/.minecraft/instances/Pack/.minecraft/mods/a.jar'' ''/files/a.jar''"
  by code_simp

lemma vanilla_pack_store:
  "initial_store (fs (snd (createMinecraftInstance host_offline vanilla_pack Minecraft False world0)))
     (profiles_path ''/home/u/.minecraft'') =
     Inr (JObj [(''profiles'',
                 JObj [(profileId_of ''Pack'',
                        launcher_profile (toISOString host_offline 0) ''data:image/png;base64,AAAA'' ''Pack''
                          (toISOString host_offline (Suc 0)) ''/home/u/.minecraft/instances/Pack''
                          (Some (''-Xmx'' @ recommended_memory (java vanilla_pack))))]),
                (''settings'', JObj []), (''version'', JNum 3)])"
proof -
  have p: "create_paths host_offline Minecraft (name vanilla_pack) =
     Inr (''/home/u/.minecraft'', [], ''/home/u/.minecraft/instances/Pack'')"
    using pack_paths by (simp add: name_vanilla_pack)
  have m: "map_of [(''profiles'', JObj []), (''settings'', JObj []), (''version'', JNum 3)] ''profiles'' = Some (JObj [])"
    by simp
  have e: "fs world0 ''/home/u/.minecraft/instances/Pack'' = None \<or> False"
    by (simp add: world0_def)
  have d: "dates world0 = 0"
    by (simp add: world0_def)
  show ?thesis
    using run_store [OF p offline_keeps pack_store_outside pack_store_not_game_dir pack_store_apart
        fresh_store m offline_icon e, THEN conjunct2]
    by (simp add: name_vanilla_pack d)
qed

lemma vanilla_pack_commands:
  "filter is_progress_or_transfer
     (trace (snd (createMinecraftInstance host_offline vanilla_pack Minecraft False world0))) =
     [Dispatch (instanceCreationProgress ''a.jar'' 2 1 (Finite 200)),
      ExecCommand (command_of pack_mods (file_entry ''a.jar'')),
      ExecCommand (command_of pack_mods (file_entry ''a.jar'')),
      ExecCommand (command_of pack_mods (file_entry ''a.jar'')),
      ExecCommand (client_command vanilla_pack pack_path)]"
proof -
  obtain ip ks where r: "create_instancePath host_offline Minecraft (name vanilla_pack) = Inr ip"
    "transfers_always_fail host_offline \<longrightarrow> ks = replicate (totalFiles_of (files vanilla_pack)) 3"
    "filter is_progress_or_transfer
       (trace (snd (createMinecraftInstance host_offline vanilla_pack Minecraft False world0))) =
          filter is_progress_or_transfer (trace world0)
          @ types_order (path_join [ip, ''.minecraft'']) (totalFiles_of (files vanilla_pack)) fileTypes
              (files vanilla_pack) 0 ks
          @ (if type' (loader vanilla_pack) = Vanilla then [ExecCommand (client_command vanilla_pack ip)] else [])"
    using run_order [OF pack_run [OF name_vanilla_pack]] by blast
  have ip: "ip = pack_path"
    using r(1) pack_instancePath by (simp add: name_vanilla_pack)
  have ks: "ks = replicate 1 3"
    using r(2) offline_host vanilla_pack_total by simp
  show ?thesis
    unfolding r(3) ip ks vanilla_pack_total
    by (simp only: vanilla_pack_order trace_world0 vanilla_pack_vanilla) simp
qed

lemma vanilla_pack_mod_transfer:
  "ExecCommand (curl_file ''/home/u/.minecraft/instances/Pack/.minecraft/mods/a.jar'' ''/files/a.jar'')
     \<in> set (trace (snd (createMinecraftInstance host_offline vanilla_pack Minecraft False world0)))"
proof -
  have "ExecCommand (command_of pack_mods (file_entry ''a.jar''))
      \<in> set (filter is_progress_or_transfer
           (trace (snd (createMinecraftInstance host_offline vanilla_pack Minecraft False world0))))"
    unfolding vanilla_pack_commands by simp
  then show ?thesis
    unfolding pack_mod_command by simp
qed

lemma vanilla_pack_gameDir:
  "stored_gameDir (fs (snd (createMinecraftInstance host_offline vanilla_pack Minecraft False world0)))
     ''/home/u/.minecraft/launcher_profiles.json'' ''communivents_pack'' =
     Some (JStr ''/home/u/.minecraft/instances/Pack'')"
  using vanilla_pack_store
  unfolding pack_profiles_path pack_profileId
  by (simp add: stored_gameDir_def stored_profile_def launcher_profile_def)

text \<open>
  C5. The \<open>gameDir\<close> of the profile that \<open>create.ts\<close> stores. An installation of
  the vanilla pack for the generic launcher, on the Linux host and from an empty
  filesystem, returns \<open>true\<close>. Its instance path is
  \<open>/home/u/.minecraft/instances/Pack\<close>, and the profile it stores under
  \<open>communivents_pack\<close> has exactly that path as \<open>gameDir\<close>; the game-data path, the
  instance path joined with \<open>.minecraft\<close>, is
  \<open>/home/u/.minecraft/instances/Pack/.minecraft\<close>, and the mod of the pack is
  downloaded below it, to \<open>.minecraft/mods/a.jar\<close>.
\<close>

theorem profile_gameDir_is_instance_path:
  "fst (createMinecraftInstance host_offline vanilla_pack Minecraft False world0) = Inr True
   \<and> create_instancePath host_offline Minecraft (name vanilla_pack) = Inr ''/home/u/.minecraft/instances/Pack''
   \<and> profileId_of (name vanilla_pack) = ''communivents_pack''
   \<and> stored_gameDir (fs (snd (createMinecraftInstance host_offline vanilla_pack Minecraft False world0)))
        ''/home/u/.minecraft/launcher_profiles.json'' ''communivents_pack'' =
        Some (JStr ''/home/u/.minecraft/instances/Pack'')
   \<and> path_join [''/home/u/.minecraft/instances/Pack'', ''.minecraft''] =
        ''/home/u/.minecraft/instances/Pack/.minecraft''
   \<and> ExecCommand (curl_file ''/home/u/.minecraft/instances/Pack/.minecraft/mods/a.jar'' ''/files/a.jar'')
        \<in> set (trace (snd (createMinecraftInstance host_offline vanilla_pack Minecraft False world0)))"
  using pack_installs [OF name_vanilla_pack] pack_instancePath pack_profileId vanilla_pack_gameDir
    pack_game_dir vanilla_pack_mod_transfer
  by (simp only: name_vanilla_pack pack_path_def simp_thms)

section \<open>Installing twice\<close>


























end
